theory Spec2Isabelle
  imports Main "HOL-Library.Word" "HOL-Library.Sublist"
begin

unbundle bit_operations_syntax

section \<open>The bootstrapper \<open>klr.core45.cpp\<close>\<close>

text \<open>
  The file defines four functions: \<open>GetModuleDirectory\<close>, \<open>ScanDirectory\<close>,
  \<open>LoadCoreClr\<close> and the exported \<open>CallApplicationMain\<close>. Each one is embedded below
  as a HOL function of the same name. Everything the code asks of the operating system
  and of the hosted runtime is an explicit argument (the records \<open>os\<close> and \<open>host\<close>), and
  every call that leaves the process is written to a trace of events, so that the order
  of the calls can be stated and proved.
\<close>

subsection \<open>Strings and the bounds-checked C runtime functions\<close>

text \<open>
  A \<open>WCHAR\<close> string is the list of its code units up to, and without, the terminating
  zero. The code compares and copies whole code units only, so one HOL character
  stands for one \<open>WCHAR\<close>.
\<close>

type_synonym wstring = string

definition MAX_PATH :: nat where
  "MAX_PATH = 260"

definition TRUSTED_PLATFORM_ASSEMBLIES_STRING_BUFFER_SIZE_CCH :: nat where
  "TRUSTED_PLATFORM_ASSEMBLIES_STRING_BUFFER_SIZE_CCH = 63 * 1024"

type_synonym errno_t = nat

definition ERANGE :: errno_t where
  "ERANGE = 34"

text \<open>
  \<open>wcscpy_s (dest, n, src)\<close> and \<open>wcscat_s (dest, n, src)\<close> of the C runtime, for a
  destination of \<open>n\<close> elements. When the result and its terminator fit, they
  return 0 and the destination holds the result. When they do not fit, the runtime
  reports an invalid parameter; the code tests the returned \<open>errno\<close>, so it runs with a
  handler that returns, and then the functions return \<open>ERANGE\<close> after setting
  \<open>dest[0]\<close> to 0: the destination is the empty string.
  Both return the pair of the \<open>errno\<close> and the new content of the destination.
\<close>

definition wcscpy_s :: "nat \<Rightarrow> wstring \<Rightarrow> errno_t \<times> wstring" where
  "wcscpy_s n src = (if length src + 1 \<le> n then (0, src) else (ERANGE, []))"

definition wcscat_s :: "wstring \<Rightarrow> nat \<Rightarrow> wstring \<Rightarrow> errno_t \<times> wstring" where
  "wcscat_s dest n src =
     (if length dest + length src + 1 \<le> n then (0, dest @ src) else (ERANGE, []))"

subsection \<open>Directory enumeration\<close>

record WIN32_FIND_DATA =
  dwFileAttributes :: "32 word"
  cFileName :: wstring

definition FILE_ATTRIBUTE_DIRECTORY :: "32 word" where
  "FILE_ATTRIBUTE_DIRECTORY = 0x10"

type_synonym HMODULE = nat
type_synonym FARPROC = nat

text \<open>
  What the process can observe of the operating system. The answers do not change
  during a run: the same question has the same answer each time it is asked.
  \<^item> \<open>environment\<close>: the value of a variable of the environment, if it is set;
  \<^item> \<open>LoadLibraryExW\<close>: the handle a library path loads to under the given flags,
    \<open>None\<close> for a null handle;
  \<^item> \<open>GetProcAddress\<close>: the address of an export of a module, \<open>None\<close> for null;
  \<^item> \<open>FindFile\<close>: for a search pattern, the find data that \<open>FindFirstFile\<close> and then
    the calls of \<open>FindNextFile\<close> deliver, in the order of the file system. The empty
    list stands for \<open>INVALID_HANDLE_VALUE\<close>: \<open>FindFirstFile\<close> fails when the directory
    is missing and when no entry matches;
  \<^item> \<open>GetModuleFileName\<close>: the path of a module, of the executable for \<open>None\<close>;
  \<^item> \<open>GetModuleHandleExW_PIN\<close>: whether pinning the module of that path succeeds;
  \<^item> \<open>calloc\<close>: whether the allocation of the assembly list delivers a buffer.
\<close>

record os =
  environment :: "wstring \<Rightarrow> wstring option"
  LoadLibraryExW :: "wstring \<Rightarrow> 32 word \<Rightarrow> HMODULE option"
  GetProcAddress :: "HMODULE \<Rightarrow> string \<Rightarrow> FARPROC option"
  FindFile :: "wstring \<Rightarrow> WIN32_FIND_DATA list"
  GetModuleFileName :: "HMODULE option \<Rightarrow> wstring"
  GetModuleHandleExW_PIN :: "wstring \<Rightarrow> bool"
  calloc :: bool

subsection \<open>\<open>ScanDirectory\<close>\<close>

text \<open>The twelve names that lines 56 to 67 compare the file name with.\<close>

definition ExclusionSet :: "wstring list" where
  "ExclusionSet =
     [''klr.host.dll'',
      ''klr.host.ni.dll'',
      ''Microsoft.Framework.ApplicationHost.dll'',
      ''Microsoft.Framework.ApplicationHost.ni.dll'',
      ''Microsoft.Framework.Runtime.dll'',
      ''Microsoft.Framework.Runtime.ni.dll'',
      ''Microsoft.Framework.Runtime.Roslyn.dll'',
      ''Microsoft.Framework.Runtime.Roslyn.ni.dll'',
      ''Microsoft.Framework.Project.dll'',
      ''Microsoft.Framework.Project.ni.dll'',
      ''Microsoft.Framework.DesignTimeHost.dll'',
      ''Microsoft.Framework.DesignTimeHost.ni.dll'']"

text \<open>
  The condition of lines 56 to 67, in the order of the source; \<open>wcscmp\<close> returns 0
  exactly for equal strings.
\<close>

definition excluded :: "wstring \<Rightarrow> bool" where
  "excluded name =
     (name = ''klr.host.dll'' \<or>
      name = ''klr.host.ni.dll'' \<or>
      name = ''Microsoft.Framework.ApplicationHost.dll'' \<or>
      name = ''Microsoft.Framework.ApplicationHost.ni.dll'' \<or>
      name = ''Microsoft.Framework.Runtime.dll'' \<or>
      name = ''Microsoft.Framework.Runtime.ni.dll'' \<or>
      name = ''Microsoft.Framework.Runtime.Roslyn.dll'' \<or>
      name = ''Microsoft.Framework.Runtime.Roslyn.ni.dll'' \<or>
      name = ''Microsoft.Framework.Project.dll'' \<or>
      name = ''Microsoft.Framework.Project.ni.dll'' \<or>
      name = ''Microsoft.Framework.DesignTimeHost.dll'' \<or>
      name = ''Microsoft.Framework.DesignTimeHost.ni.dll'')"

definition is_directory :: "WIN32_FIND_DATA \<Rightarrow> bool" where
  "is_directory ffd = (dwFileAttributes ffd AND FILE_ATTRIBUTE_DIRECTORY \<noteq> 0)"

text \<open>
  The \<open>do ... while (FindNextFile ...)\<close> loop of lines 48 to 85 over the find data still
  to come, the first element being the current \<open>ffd\<close>. The \<open>continue\<close> of line 72 jumps
  to the loop condition, which advances the enumeration. The result is \<open>ret\<close> and the
  content of the buffer \<open>pszTrustedPlatformAssemblies\<close>.
\<close>

fun scan_loop :: "wstring \<Rightarrow> nat \<Rightarrow> WIN32_FIND_DATA list \<Rightarrow> wstring \<Rightarrow> bool \<times> wstring" where
  "scan_loop szDirectory cch [] tpa = (True, tpa)"
| "scan_loop szDirectory cch (ffd # rest) tpa =
     (if is_directory ffd then scan_loop szDirectory cch rest tpa
      else if excluded (cFileName ffd) then scan_loop szDirectory cch rest tpa
      else
        (case wcscat_s tpa cch szDirectory of (e1, tpa1) \<Rightarrow>
           if e1 \<noteq> 0 then (False, tpa1)
           else
        (case wcscat_s tpa1 cch (cFileName ffd) of (e2, tpa2) \<Rightarrow>
           if e2 \<noteq> 0 then (False, tpa2)
           else
        (case wcscat_s tpa2 cch '';'' of (e3, tpa3) \<Rightarrow>
           if e3 \<noteq> 0 then (False, tpa3)
           else scan_loop szDirectory cch rest tpa3))))"

definition ScanDirectory ::
  "os \<Rightarrow> wstring \<Rightarrow> wstring \<Rightarrow> wstring \<Rightarrow> nat \<Rightarrow> bool \<times> wstring" where
  "ScanDirectory sys szDirectory szPattern tpa cch =
     (case wcscpy_s MAX_PATH szDirectory of (e1, wszPattern1) \<Rightarrow>
        if e1 \<noteq> 0 then (False, tpa)
        else
     (case wcscat_s wszPattern1 MAX_PATH szPattern of (e2, wszPattern) \<Rightarrow>
        if e2 \<noteq> 0 then (False, tpa)
        else
     (case FindFile sys wszPattern of
        [] \<Rightarrow> (False, tpa)
      | ffd # rest \<Rightarrow> scan_loop szDirectory cch (ffd # rest) tpa)))"

text \<open>The entry that the three appends of lines 75 to 82 write for one file.\<close>

definition entry :: "wstring \<Rightarrow> WIN32_FIND_DATA \<Rightarrow> wstring" where
  "entry szDirectory ffd = szDirectory @ cFileName ffd @ '';''"

text \<open>The files of an enumeration that are neither directories nor excluded.\<close>

definition listed :: "WIN32_FIND_DATA list \<Rightarrow> WIN32_FIND_DATA list" where
  "listed ffds = filter (\<lambda>ffd. \<not> is_directory ffd \<and> \<not> excluded (cFileName ffd)) ffds"

subsection \<open>Outcomes and events\<close>

text \<open>
  A call of a function of the file returns, or runs forever, or leaves the behaviour
  the language defines (a read outside an array, a read of a buffer never written).
\<close>

datatype 'a outcome = Returns 'a | Diverges | Undefined

type_synonym HRESULT = "32 word"

definition S_OK :: HRESULT where
  "S_OK = 0"

definition FAILED :: "HRESULT \<Rightarrow> bool" where
  "FAILED hr = (sint hr < 0)"

text \<open>The methods of \<open>ICLRRuntimeHost2\<close> that the code calls.\<close>

datatype host_call =
    SetStartupFlags
  | Authenticate
  | Start
  | CreateAppDomainWithManager "wstring list" "wstring list"
  | CreateDelegate
  | UnloadAppDomain
  | Stop

text \<open>
  The calls that leave the process, in the order the code makes them: a formatted
  line written to the standard output (the format and its arguments), a library load
  (the path and the flags), the two calls that widen the search path
  of the loader, the pinning of the runtime library, the factory export
  \<open>GetCLRRuntimeHost\<close>, a method of the host interface, the allocation and the release
  of the assembly list, a call of \<open>ScanDirectory\<close> with its pattern, the write of an
  environment variable, and the call of the entry delegate.
\<close>

datatype printf_arg = ArgInt int | ArgStr wstring

datatype event =
    EvPrintf string "printf_arg list"
  | EvLoadLibrary wstring "32 word"
  | EvAddDllDirectory wstring
  | EvSetDefaultDllDirectories "32 word"
  | EvPin wstring
  | EvGetCLRRuntimeHost
  | EvHost host_call
  | EvCalloc
  | EvFree
  | EvScanDirectory wstring
  | EvSetEnvironmentVariable wstring wstring
  | EvHostMain "32 word" "wstring list"

definition backslash :: char where
  "backslash = CHR 0x5C"

definition newline :: char where
  "newline = CHR 0x0A"

definition carriage_return :: char where
  "carriage_return = CHR 0x0D"

definition LOAD_LIBRARY_SEARCH_DEFAULT_DIRS :: "32 word" where
  "LOAD_LIBRARY_SEARCH_DEFAULT_DIRS = 0x1000"

definition LOAD_LIBRARY_SEARCH_USER_DIRS :: "32 word" where
  "LOAD_LIBRARY_SEARCH_USER_DIRS = 0x400"

subsection \<open>\<open>GetModuleDirectory\<close>\<close>

text \<open>
  The loop of line 21 walks \<open>dirLength\<close> down from the last character to the first
  backslash. \<open>dirLength\<close> is an unsigned \<open>DWORD\<close>, so the test \<open>dirLength >= 0\<close> always
  holds: below index 0 the counter wraps to \<open>0xFFFFFFFF\<close> and the next read is outside
  the buffer. \<open>find_backslash szPath n\<close> is the index the loop stops at when it starts
  at index \<open>n\<close>, and \<open>None\<close> when it leaves the buffer.
\<close>

fun find_backslash :: "wstring \<Rightarrow> nat \<Rightarrow> nat option" where
  "find_backslash szPath 0 = (if szPath ! 0 = backslash then Some 0 else None)"
| "find_backslash szPath (Suc n) =
     (if szPath ! Suc n = backslash then Some (Suc n) else find_backslash szPath n)"

text \<open>
  \<open>GetModuleDirectory\<close> for a module whose path is \<open>szPath\<close> (what \<open>GetModuleFileName\<close>
  stores, of length \<open>dirLength\<close>). For the empty path the first decrement wraps already.
  The result is the path up to and with its last backslash, since line 22 writes the
  terminator behind it.

  \<open>GetModuleFileName (module, szPath, MAX_PATH)\<close> stores a path of fewer than \<open>MAX_PATH\<close>
  characters as it is and returns its length. A longer path it cuts to
  \<open>MAX_PATH - 1\<close> characters and the terminator, and returns \<open>MAX_PATH\<close>: the loop then
  starts on the terminator, which is no backslash, and goes on from the last
  character stored. \<open>stored_path\<close> is what the buffer holds in both cases.
\<close>

definition stored_path :: "wstring \<Rightarrow> wstring" where
  "stored_path path = take (MAX_PATH - 1) path"

definition GetModuleDirectory :: "wstring \<Rightarrow> wstring option" where
  "GetModuleDirectory szPath =
     (if szPath = [] then None
      else (case find_backslash szPath (length szPath - 1) of
              None \<Rightarrow> None
            | Some dirLength \<Rightarrow> Some (take (dirLength + 1) szPath)))"

subsection \<open>\<open>LoadCoreClr\<close>\<close>

text \<open>
  The two conditions of the preprocessor: \<open>KRE_TARGET_OS == Win7PlusCoreSystem\<close> of
  line 116 and \<open>AMD64\<close> of line 224.
\<close>

record build =
  Win7PlusCoreSystem :: bool
  AMD64 :: bool

text \<open>
  \<open>GetEnvironmentVariableW (name, buffer, nSize)\<close>: the returned \<open>DWORD\<close> and the content
  of the buffer. For a variable that is not set the call returns 0. For a value that
  fits with its terminator it returns the length of the value and stores the value.
  For a value that does not fit it returns the size it needs, and the content of the
  buffer is not defined: \<open>None\<close>.
\<close>

definition GetEnvironmentVariableW :: "os \<Rightarrow> wstring \<Rightarrow> nat \<Rightarrow> nat \<times> wstring option" where
  "GetEnvironmentVariableW sys name nSize =
     (case environment sys name of
        None \<Rightarrow> (0, None)
      | Some v \<Rightarrow> if length v < nSize then (length v, Some v) else (length v + 1, None))"

text \<open>The array of line 121, with its terminating \<open>NULL\<close>.\<close>

definition rgwzOSLoaderModuleNames :: "wstring option list" where
  "rgwzOSLoaderModuleNames =
     [Some ''api-ms-win-core-libraryloader-l1-1-1.dll'', Some ''kernel32.dll'', None]"

text \<open>
  The \<open>while\<close> loop of lines 140 to 197. Its state is the index \<open>dwModuleFileName\<close>, the
  handle \<open>hOSLoaderModule\<close>, the two function pointers and the trace. Each \<open>continue\<close>
  jumps to the test of the loop with the index as it is, without running lines 195
  and 196, which advance it. The two calls of \<open>FreeLibrary\<close> stand under a test for a
  null handle in a branch where the handle is not null, so they are never made. The
  local \<open>fSuccess\<close> is written and never read; it is left out. The loop may run
  forever: \<open>None\<close> is the run that does not end.
\<close>

partial_function (option) scan_loader_modules ::
  "os \<Rightarrow> bool \<Rightarrow> nat \<Rightarrow> HMODULE option \<Rightarrow> FARPROC option \<Rightarrow> FARPROC option \<Rightarrow> event list \<Rightarrow>
     (HMODULE option \<times> FARPROC option \<times> FARPROC option \<times> event list) option" where
  "scan_loader_modules sys m_fVerboseTrace dwModuleFileName hOSLoaderModule
       pFnAddDllDirectory pFnSetDefaultDllDirectories tr =
     (case rgwzOSLoaderModuleNames ! dwModuleFileName of
        None \<Rightarrow> Some (hOSLoaderModule, pFnAddDllDirectory, pFnSetDefaultDllDirectories, tr)
      | Some name \<Rightarrow>
         (case LoadLibraryExW sys name LOAD_LIBRARY_SEARCH_DEFAULT_DIRS of
            None \<Rightarrow>
              scan_loader_modules sys m_fVerboseTrace dwModuleFileName None
                pFnAddDllDirectory pFnSetDefaultDllDirectories
                (tr @ [EvLoadLibrary name LOAD_LIBRARY_SEARCH_DEFAULT_DIRS] @
                   (if m_fVerboseTrace
                    then [EvPrintf (''Failed to load: %s'' @ [carriage_return, newline])
                            [ArgStr name]]
                    else []))
          | Some h \<Rightarrow>
             (let tr1 = tr @ [EvLoadLibrary name LOAD_LIBRARY_SEARCH_DEFAULT_DIRS] @
                   (if m_fVerboseTrace
                    then [EvPrintf (''Loaded Module: %s'' @ [carriage_return, newline])
                            [ArgStr name]]
                    else [])
              in
              (case GetProcAddress sys h ''AddDllDirectory'' of
                 None \<Rightarrow>
                   scan_loader_modules sys m_fVerboseTrace dwModuleFileName (Some h)
                     None pFnSetDefaultDllDirectories
                     (tr1 @ (if m_fVerboseTrace
                             then [EvPrintf (''Failed to find function %S in %s'' @ [newline])
                                     [ArgStr ''AddDllDirectory'', ArgStr name]]
                             else []))
               | Some pAdd \<Rightarrow>
                  (case GetProcAddress sys h ''SetDefaultDllDirectories'' of
                     None \<Rightarrow>
                       scan_loader_modules sys m_fVerboseTrace dwModuleFileName (Some h)
                         (Some pAdd) None
                         (tr1 @ (if m_fVerboseTrace
                                 then [EvPrintf (''Failed to find function %S in %s'' @ [newline])
                                         [ArgStr ''SetDefaultDllDirectories'', ArgStr name]]
                                 else []))
                   | Some pSet \<Rightarrow>
                       if Some h \<noteq> None \<and> Some pAdd \<noteq> None \<and> Some pSet \<noteq> None
                       then Some (Some h, Some pAdd, Some pSet, tr1)
                       else
                         scan_loader_modules sys m_fVerboseTrace (dwModuleFileName + 1)
                           (Some h) (Some pAdd) (Some pSet) tr1)))))"

declare scan_loader_modules.simps [code]

text \<open>
  Lines 199 to 218, after the loop: with a handle or a function pointer missing the
  code jumps to \<open>Finished\<close> (\<open>Inl\<close>, with the trace), where \<open>hCoreCLRModule\<close> is still null.
  Otherwise it widens the search path and loads the library of \<open>wszClrPath\<close>
  (\<open>Inr\<close>, with the handle and the trace).
\<close>

definition widen_search_path ::
  "os \<Rightarrow> wstring \<Rightarrow> wstring \<Rightarrow>
     HMODULE option \<times> FARPROC option \<times> FARPROC option \<times> event list \<Rightarrow>
     event list + (HMODULE option \<times> event list)" where
  "widen_search_path sys szCoreClrDirectory wszClrPath s =
     (case s of (hOSLoaderModule, pFnAddDllDirectory, pFnSetDefaultDllDirectories, tr) \<Rightarrow>
        if hOSLoaderModule = None \<or> pFnAddDllDirectory = None \<or>
           pFnSetDefaultDllDirectories = None
        then Inl tr
        else Inr (LoadLibraryExW sys wszClrPath 0,
                  tr @ [EvAddDllDirectory szCoreClrDirectory,
                        EvSetDefaultDllDirectories
                          (LOAD_LIBRARY_SEARCH_DEFAULT_DIRS OR LOAD_LIBRARY_SEARCH_USER_DIRS),
                        EvLoadLibrary wszClrPath 0]))"

text \<open>The development path of lines 224 to 228.\<close>

definition development_path :: "build \<Rightarrow> wstring" where
  "development_path cfg =
     ''..'' @ [backslash] @ ''..'' @ [backslash] @ ''..'' @ [backslash] @
     ''artifacts'' @ [backslash] @ ''build'' @ [backslash] @ ''ProjectK'' @ [backslash] @
     ''Runtime'' @ [backslash] @ (if AMD64 cfg then ''amd64'' else ''x86'') @ [backslash] @
     ''coreclr.dll''"

text \<open>Lines 221 to 236: the two loads that are made while the handle is null.\<close>

definition load_fallbacks ::
  "build \<Rightarrow> os \<Rightarrow> HMODULE option \<times> event list \<Rightarrow> HMODULE option \<times> event list" where
  "load_fallbacks cfg sys s =
     (case s of (hCoreCLRModule, tr) \<Rightarrow>
        (case (if hCoreCLRModule = None
               then (LoadLibraryExW sys (development_path cfg) 0,
                     tr @ [EvLoadLibrary (development_path cfg) 0])
               else (hCoreCLRModule, tr)) of
           (hCoreCLRModule1, tr1) \<Rightarrow>
             if hCoreCLRModule1 = None
             then (LoadLibraryExW sys ''coreclr.dll'' 0, tr1 @ [EvLoadLibrary ''coreclr.dll'' 0])
             else (hCoreCLRModule1, tr1)))"

text \<open>
  Lines 104 to 114: the path of the library in the directory of \<open>CORECLR_DIR\<close>;
  \<open>None\<close> when a copy does not fit and the code jumps to \<open>Finished\<close>. The directory is
  not empty here, since line 99 has tested its length.
\<close>

definition clr_path :: "wstring \<Rightarrow> wstring option" where
  "clr_path szCoreClrDirectory =
     (case wcscpy_s MAX_PATH szCoreClrDirectory of (e1, wszClrPath1) \<Rightarrow>
        if e1 \<noteq> 0 then None
        else
     (case (if last wszClrPath1 \<noteq> backslash
            then wcscat_s wszClrPath1 MAX_PATH [backslash]
            else (0, wszClrPath1)) of (e2, wszClrPath2) \<Rightarrow>
        if e2 \<noteq> 0 then None
        else
     (case wcscat_s wszClrPath2 MAX_PATH ''coreclr.dll'' of (e3, wszClrPath) \<Rightarrow>
        if e3 \<noteq> 0 then None else Some wszClrPath)))"

text \<open>
  \<open>LoadCoreClr\<close> returns the handle \<open>hCoreCLRModule\<close>, \<open>None\<close> for the null handle, and
  the trace of its calls. A value of \<open>CORECLR_DIR\<close> that does not fit into the
  \<open>MAX_PATH\<close> elements of \<open>szCoreClrDirectory\<close> leaves that buffer undefined, and line 104
  reads it.
\<close>

definition LoadCoreClr :: "build \<Rightarrow> os \<Rightarrow> (HMODULE option \<times> event list) outcome" where
  "LoadCoreClr cfg sys =
     (case GetEnvironmentVariableW sys ''CORECLR_DIR'' MAX_PATH of
        (dwCoreClrDirectory, buffer) \<Rightarrow>
          if dwCoreClrDirectory \<noteq> 0 then
            (case buffer of
               None \<Rightarrow> Undefined
             | Some szCoreClrDirectory \<Rightarrow>
                (case clr_path szCoreClrDirectory of
                   None \<Rightarrow> Returns (None, [])
                 | Some wszClrPath \<Rightarrow>
                    if Win7PlusCoreSystem cfg then
                      (case scan_loader_modules sys
                              (fst (GetEnvironmentVariableW sys ''KRE_TRACE'' 1) > 0)
                              0 None None None [] of
                         None \<Rightarrow> Diverges
                       | Some s \<Rightarrow>
                          (case widen_search_path sys szCoreClrDirectory wszClrPath s of
                             Inl tr \<Rightarrow> Returns (None, tr)
                           | Inr s' \<Rightarrow> Returns (load_fallbacks cfg sys s')))
                    else
                      Returns (load_fallbacks cfg sys
                        (LoadLibraryExW sys wszClrPath 0,
                         [EvAddDllDirectory szCoreClrDirectory,
                          EvSetDefaultDllDirectories
                            (LOAD_LIBRARY_SEARCH_DEFAULT_DIRS OR LOAD_LIBRARY_SEARCH_USER_DIRS),
                          EvLoadLibrary wszClrPath 0]))))
          else Returns (load_fallbacks cfg sys (None, [])))"

text \<open>
  What the loop can obtain from the first module of the array: the handle of the
  module and the addresses of the two functions, when the module loads and exports
  both.
\<close>

definition first_loader_module :: "os \<Rightarrow> (HMODULE \<times> FARPROC \<times> FARPROC) option" where
  "first_loader_module sys =
     (case LoadLibraryExW sys ''api-ms-win-core-libraryloader-l1-1-1.dll''
             LOAD_LIBRARY_SEARCH_DEFAULT_DIRS of
        None \<Rightarrow> None
      | Some h \<Rightarrow>
         (case GetProcAddress sys h ''AddDllDirectory'' of
            None \<Rightarrow> None
          | Some pAdd \<Rightarrow>
             (case GetProcAddress sys h ''SetDefaultDllDirectories'' of
                None \<Rightarrow> None
              | Some pSet \<Rightarrow> Some (h, pAdd, pSet))))"

text \<open>
  The events of one pass of the loop that finds the first module loaded and both
  functions exported.
\<close>

definition loader_trace :: "bool \<Rightarrow> event list" where
  "loader_trace v = [EvLoadLibrary ''api-ms-win-core-libraryloader-l1-1-1.dll''
               LOAD_LIBRARY_SEARCH_DEFAULT_DIRS] @
            (if v then [EvPrintf (''Loaded Module: %s'' @ [carriage_return, newline])
                          [ArgStr ''api-ms-win-core-libraryloader-l1-1-1.dll'']]
             else [])"

text \<open>
  The events that precede the load of the library of \<open>CORECLR_DIR\<close>: on
  \<open>Win7PlusCoreSystem\<close> those of the loop, then the two calls that widen the search path.
\<close>

definition widening_trace :: "build \<Rightarrow> os \<Rightarrow> wstring \<Rightarrow> event list" where
  "widening_trace cfg sys dir =
     (if Win7PlusCoreSystem cfg
      then loader_trace (fst (GetEnvironmentVariableW sys ''KRE_TRACE'' 1) > 0) else []) @
     [EvAddDllDirectory dir,
      EvSetDefaultDllDirectories (LOAD_LIBRARY_SEARCH_DEFAULT_DIRS OR LOAD_LIBRARY_SEARCH_USER_DIRS)]"

subsection \<open>The fallback chain as the specification words it\<close>

text \<open>
  The specification of the locator: the candidates are tried in order, each one only
  when the ones before it gave no handle, and the first handle wins.
  \<open>first_successful_load\<close> returns that handle and the paths it has tried.
\<close>

fun first_successful_load :: "os \<Rightarrow> wstring list \<Rightarrow> HMODULE option \<times> wstring list" where
  "first_successful_load sys [] = (None, [])"
| "first_successful_load sys (path # paths) =
     (case LoadLibraryExW sys path 0 of
        Some h \<Rightarrow> (Some h, [path])
      | None \<Rightarrow>
         (case first_successful_load sys paths of
            (h, attempted) \<Rightarrow> (h, path # attempted)))"

text \<open>
  The first candidate: the directory named by \<open>CORECLR_DIR\<close>, made to end with a
  separator, with the file name of the library; none when the variable is not set or
  is empty.
\<close>

definition with_separator :: "wstring \<Rightarrow> wstring" where
  "with_separator dir = (if last dir = backslash then dir else dir @ [backslash])"

definition environment_path :: "os \<Rightarrow> wstring option" where
  "environment_path sys =
     (case environment sys ''CORECLR_DIR'' of
        None \<Rightarrow> None
      | Some dir \<Rightarrow> if dir = [] then None else Some (with_separator dir @ ''coreclr.dll''))"

definition locate_chain :: "build \<Rightarrow> os \<Rightarrow> wstring list" where
  "locate_chain cfg sys =
     (case environment_path sys of None \<Rightarrow> [] | Some path \<Rightarrow> [path]) @
     [development_path cfg, ''coreclr.dll'']"

subsection \<open>\<open>CallApplicationMain\<close>\<close>

record CALL_APPLICATION_MAIN_DATA =
  klrDirectory :: "wstring option"
  applicationBase :: wstring
  argc :: "32 word"
  argv :: "wstring list"
  exitcode :: "32 word"

text \<open>
  The hosted runtime, as a stub: the \<open>HRESULT\<close> of the factory export and of each
  method whose result the code tests, and the function behind the entry delegate.
\<close>

record host =
  GetCLRRuntimeHost_hr :: HRESULT
  Authenticate_hr :: HRESULT
  Start_hr :: HRESULT
  CreateAppDomainWithManager_hr :: HRESULT
  CreateDelegate_hr :: HRESULT
  HostMain :: "32 word \<Rightarrow> wstring list \<Rightarrow> 32 word"

text \<open>A call of \<open>printf_s\<close> with a message that ends its line.\<close>

definition printf_s :: "string \<Rightarrow> printf_arg list \<Rightarrow> event" where
  "printf_s msg args = EvPrintf (msg @ [newline]) args"

text \<open>The array \<open>property_keys\<close> of lines 321 to 342.\<close>

definition property_keys :: "wstring list" where
  "property_keys = [''APPBASE'', ''TRUSTED_PLATFORM_ASSEMBLIES'', ''APP_PATHS'']"

text \<open>
  The label \<open>Finished\<close> of lines 448 to 462: the buffer is released when it has been
  allocated, and the returned \<open>bool\<close> is decided by the \<open>HRESULT\<close> of the last host call.
\<close>

definition Finished ::
  "HRESULT \<Rightarrow> bool \<Rightarrow> CALL_APPLICATION_MAIN_DATA \<Rightarrow> event list \<Rightarrow>
     bool \<times> CALL_APPLICATION_MAIN_DATA \<times> event list" where
  "Finished hr allocated data tr =
     (if FAILED hr then False else True, data, if allocated then tr @ [EvFree] else tr)"

text \<open>
  Lines 364 to 384: the entry assembly is appended to the assembly list and the value
  of \<open>APP_PATHS\<close> is built in a buffer of \<open>MAX_PATH\<close> elements. \<open>None\<close> when an append does
  not fit and the code jumps to \<open>Finished\<close>.
\<close>

definition build_properties ::
  "wstring \<Rightarrow> nat \<Rightarrow> wstring \<Rightarrow> wstring \<Rightarrow> (wstring \<times> wstring) option" where
  "build_properties tpa cch szCurrentDirectory szCoreClrDirectory =
     (case wcscat_s tpa cch szCurrentDirectory of (e1, tpa1) \<Rightarrow>
        if e1 \<noteq> 0 then None else
     (case wcscat_s tpa1 cch ''klr.core45.managed.dll'' of (e2, tpa2) \<Rightarrow>
        if e2 \<noteq> 0 then None else
     (case wcscat_s [] MAX_PATH szCurrentDirectory of (e3, wszAppPaths1) \<Rightarrow>
        if e3 \<noteq> 0 then None else
     (case wcscat_s wszAppPaths1 MAX_PATH '';'' of (e4, wszAppPaths2) \<Rightarrow>
        if e4 \<noteq> 0 then None else
     (case wcscat_s wszAppPaths2 MAX_PATH szCoreClrDirectory of (e5, wszAppPaths3) \<Rightarrow>
        if e5 \<noteq> 0 then None else
     (case wcscat_s wszAppPaths3 MAX_PATH '';'' of (e6, wszAppPaths) \<Rightarrow>
        if e6 \<noteq> 0 then None else Some (tpa2, wszAppPaths)))))))"

text \<open>
  Lines 386 to 446, from the creation of the application domain to \<open>Stop\<close>, with the
  assembly list and the paths already built.
\<close>

definition run_host ::
  "host \<Rightarrow> CALL_APPLICATION_MAIN_DATA \<Rightarrow> wstring \<Rightarrow> wstring \<Rightarrow> event list \<Rightarrow>
     bool \<times> CALL_APPLICATION_MAIN_DATA \<times> event list" where
  "run_host rt data tpa wszAppPaths tr =
     (let tr1 = tr @ [EvHost (CreateAppDomainWithManager property_keys
                        [applicationBase data, tpa, wszAppPaths])]
      in
      if FAILED (CreateAppDomainWithManager_hr rt) then
        (False, data,
         tr1 @ [printf_s ''TPA      %d %s'' [ArgInt (int (length tpa)), ArgStr tpa],
                printf_s ''AppPaths %s'' [ArgStr wszAppPaths],
                printf_s ''Failed to create app domain (%d).''
                  [ArgInt (sint (CreateAppDomainWithManager_hr rt))]])
      else
        (let tr2 = tr1 @ [EvHost CreateDelegate] in
         if FAILED (CreateDelegate_hr rt) then
           (False, data,
            tr2 @ [printf_s ''Failed to create main delegate (%d).''
                     [ArgInt (sint (CreateDelegate_hr rt))]])
         else
           Finished (CreateDelegate_hr rt) True
             (data\<lparr>exitcode := HostMain rt (argc data) (argv data)\<rparr>)
             (tr2 @ [EvSetEnvironmentVariable ''KRE_FRAMEWORK'' ''aspnetcore50'',
                     EvHostMain (argc data) (argv data),
                     EvHost UnloadAppDomain, EvHost Stop])))"

text \<open>
  Lines 344 to 384: the allocation, the two scans and the building of the properties,
  after \<open>Start\<close> has succeeded with the result \<open>hr\<close>.
\<close>

definition build_and_run ::
  "os \<Rightarrow> host \<Rightarrow> CALL_APPLICATION_MAIN_DATA \<Rightarrow> HRESULT \<Rightarrow> wstring \<Rightarrow> wstring \<Rightarrow> event list \<Rightarrow>
     bool \<times> CALL_APPLICATION_MAIN_DATA \<times> event list" where
  "build_and_run sys rt data hr szCurrentDirectory szCoreClrDirectory tr =
     (let cch = TRUSTED_PLATFORM_ASSEMBLIES_STRING_BUFFER_SIZE_CCH;
          tr1 = tr @ [EvCalloc]
      in
      if \<not> calloc sys then Finished hr False data tr1
      else
        (case ScanDirectory sys szCoreClrDirectory ''*.ni.dll'' [] cch of (ret1, tpa1) \<Rightarrow>
         (case (if \<not> ret1
                then (case ScanDirectory sys szCoreClrDirectory ''*.dll'' tpa1 cch of
                        (ret2, tpa2) \<Rightarrow>
                          (ret2, tpa2,
                           tr1 @ [EvScanDirectory ''*.ni.dll'', EvScanDirectory ''*.dll'']))
                else (True, tpa1, tr1 @ [EvScanDirectory ''*.ni.dll''])) of
            (found, tpa, tr2) \<Rightarrow>
              if \<not> found then
                (False, data, tr2 @ [printf_s ''Failed to find files in the coreclr directory'' []])
              else
                (case build_properties tpa cch szCurrentDirectory szCoreClrDirectory of
                   None \<Rightarrow> Finished hr True data tr2
                 | Some (tpa', wszAppPaths) \<Rightarrow> run_host rt data tpa' wszAppPaths tr2))))"

text \<open>
  Lines 269 to 319, with the runtime library loaded: pinning, the factory export, the
  startup flags, \<open>Authenticate\<close> and \<open>Start\<close>. For a module path of \<open>MAX_PATH\<close> or more
  characters \<open>GetModuleFileName\<close> returns \<open>MAX_PATH\<close>, and line 271 writes the terminator
  at that index, behind the \<open>MAX_PATH\<close> elements of \<open>lpCoreClrModulePath\<close>.
\<close>

definition start_host ::
  "os \<Rightarrow> host \<Rightarrow> CALL_APPLICATION_MAIN_DATA \<Rightarrow> wstring \<Rightarrow> HMODULE \<Rightarrow> event list \<Rightarrow>
     (bool \<times> CALL_APPLICATION_MAIN_DATA \<times> event list) outcome" where
  "start_host sys rt data szCurrentDirectory hCoreCLRModule tr =
     (let lpCoreClrModulePath = GetModuleFileName sys (Some hCoreCLRModule) in
      if MAX_PATH \<le> length lpCoreClrModulePath then Undefined
      else
      (case GetModuleDirectory lpCoreClrModulePath of
         None \<Rightarrow> Undefined
       | Some szCoreClrDirectory \<Rightarrow>
          (let tr1 = tr @ [EvPin lpCoreClrModulePath] in
           if \<not> GetModuleHandleExW_PIN sys lpCoreClrModulePath then
             Returns (False, data, tr1 @ [printf_s ''Failed to pin coreclr.dll.'' []])
           else if GetProcAddress sys hCoreCLRModule ''GetCLRRuntimeHost'' = None then
             Returns (False, data, tr1 @ [printf_s ''Failed to find export GetCLRRuntimeHost.'' []])
           else
             (let tr2 = tr1 @ [EvGetCLRRuntimeHost] in
              if FAILED (GetCLRRuntimeHost_hr rt) then
                Returns (False, data, tr2 @ [printf_s ''Failed to get IID_ICLRRuntimeHost2.'' []])
              else
                (let tr3 = tr2 @ [EvHost SetStartupFlags, EvHost Authenticate] in
                 if FAILED (Authenticate_hr rt) then
                   Returns (False, data, tr3 @ [printf_s ''Failed to Authenticate().'' []])
                 else
                   (let tr4 = tr3 @ [EvHost Start] in
                    if FAILED (Start_hr rt) then
                      Returns (False, data, tr4 @ [printf_s ''Failed to Start().'' []])
                    else
                      Returns (build_and_run sys rt data (Start_hr rt)
                                 szCurrentDirectory szCoreClrDirectory tr4)))))))"

text \<open>
  The exported function. It returns the \<open>bool\<close>, the record \<open>data\<close> as the caller finds
  it afterwards, and the trace. Until the first host call \<open>hr\<close> is \<open>S_OK\<close>.
\<close>

definition CallApplicationMain ::
  "build \<Rightarrow> os \<Rightarrow> host \<Rightarrow> CALL_APPLICATION_MAIN_DATA \<Rightarrow>
     (bool \<times> CALL_APPLICATION_MAIN_DATA \<times> event list) outcome" where
  "CallApplicationMain cfg sys rt data =
     (case (case klrDirectory data of
              Some dir \<Rightarrow>
                (case wcscpy_s MAX_PATH dir of (e, szCurrentDirectory) \<Rightarrow>
                   if e \<noteq> 0 then Inl (Returns (Finished S_OK False data []))
                   else Inr szCurrentDirectory)
            | None \<Rightarrow>
                (case GetModuleDirectory (stored_path (GetModuleFileName sys None)) of
                   None \<Rightarrow> Inl Undefined
                 | Some szCurrentDirectory \<Rightarrow> Inr szCurrentDirectory)) of
        Inl result \<Rightarrow> result
      | Inr szCurrentDirectory \<Rightarrow>
         (case LoadCoreClr cfg sys of
            Diverges \<Rightarrow> Diverges
          | Undefined \<Rightarrow> Undefined
          | Returns (None, tr) \<Rightarrow>
              Returns (False, data, tr @ [printf_s ''Failed to locate coreclr.dll.'' []])
          | Returns (Some hCoreCLRModule, tr) \<Rightarrow>
              start_host sys rt data szCurrentDirectory hCoreCLRModule tr))"

subsection \<open>Reading a trace\<close>

text \<open>The events that \<open>LoadCoreClr\<close> can write.\<close>

fun loader_event :: "event \<Rightarrow> bool" where
  "loader_event (EvPrintf fmt args) = True"
| "loader_event (EvLoadLibrary path flags) = True"
| "loader_event (EvAddDllDirectory dir) = True"
| "loader_event (EvSetDefaultDllDirectories flags) = True"
| "loader_event e = False"

text \<open>The methods of the host interface called in a trace, in their order.\<close>

fun host_calls :: "event list \<Rightarrow> host_call list" where
  "host_calls [] = []"
| "host_calls (EvHost c # tr) = c # host_calls tr"
| "host_calls (e # tr) = host_calls tr"

text \<open>The list that the two scans of lines 353 to 360 leave in the buffer.\<close>

definition scanned_list :: "os \<Rightarrow> wstring \<Rightarrow> wstring" where
  "scanned_list sys szCoreClrDirectory =
     (let cch = TRUSTED_PLATFORM_ASSEMBLIES_STRING_BUFFER_SIZE_CCH;
          optimized = ScanDirectory sys szCoreClrDirectory ''*.ni.dll'' [] cch
      in if fst optimized then snd optimized
         else snd (ScanDirectory sys szCoreClrDirectory ''*.dll'' (snd optimized) cch))"

section \<open>Example inputs\<close>

text \<open>
  A runtime directory \<open>clr_dir\<close> whose enumeration for \<open>*.dll\<close> delivers two ordinary
  files, one excluded file and one directory, and nothing for \<open>*.ni.dll\<close>. The runtime
  library loads by its bare name only; the application lives in \<open>app_dir\<close>.
\<close>

definition clr_dir :: wstring where
  "clr_dir = ''C:'' @ [backslash] @ ''clr'' @ [backslash]"

definition app_dir :: wstring where
  "app_dir = ''C:'' @ [backslash] @ ''app'' @ [backslash]"

definition example_files :: "WIN32_FIND_DATA list" where
  "example_files =
     [\<lparr>dwFileAttributes = 0x20, cFileName = ''mscorlib.dll''\<rparr>,
      \<lparr>dwFileAttributes = 0x20, cFileName = ''klr.host.dll''\<rparr>,
      \<lparr>dwFileAttributes = 0x10, cFileName = ''sub.dll''\<rparr>,
      \<lparr>dwFileAttributes = 0x20, cFileName = ''System.dll''\<rparr>]"

definition example_os :: os where
  "example_os =
     \<lparr>environment = (\<lambda>name. None),
      LoadLibraryExW = (\<lambda>path flags. if path = ''coreclr.dll'' then Some 1 else None),
      GetProcAddress = (\<lambda>h name. if name = ''GetCLRRuntimeHost'' then Some 1 else None),
      FindFile = (\<lambda>pattern. if pattern = clr_dir @ ''*.dll'' then example_files else []),
      GetModuleFileName =
        (\<lambda>h. case h of None \<Rightarrow> app_dir @ ''klr.exe'' | Some _ \<Rightarrow> clr_dir @ ''coreclr.dll''),
      GetModuleHandleExW_PIN = (\<lambda>path. True),
      calloc = True\<rparr>"

text \<open>
  Variants of the example: \<open>CORECLR_DIR\<close> names a directory without the library; it
  names a directory of 250 characters; the first module of the loader list loads and
  exports both functions. A host stub whose calls all succeed and whose entry
  delegate returns 42.
\<close>

definition env_dir :: wstring where
  "env_dir = ''C:'' @ [backslash] @ ''clr''"

definition example_build :: build where
  "example_build = \<lparr>Win7PlusCoreSystem = False, AMD64 = True\<rparr>"

definition win7_build :: build where
  "win7_build = \<lparr>Win7PlusCoreSystem = True, AMD64 = True\<rparr>"

definition example_env_os :: os where
  "example_env_os =
     example_os\<lparr>environment := (\<lambda>name. if name = ''CORECLR_DIR'' then Some env_dir else None)\<rparr>"

definition long_dir_os :: os where
  "long_dir_os =
     example_os\<lparr>environment :=
       (\<lambda>name. if name = ''CORECLR_DIR'' then Some (replicate 250 (CHR ''a'')) else None)\<rparr>"

definition loader_os :: os where
  "loader_os =
     example_env_os
       \<lparr>LoadLibraryExW :=
          (\<lambda>path flags.
             if path = ''api-ms-win-core-libraryloader-l1-1-1.dll'' then Some 2
             else if path = ''coreclr.dll'' then Some 1 else None),
        GetProcAddress :=
          (\<lambda>h name.
             if h = 2 \<and> name = ''AddDllDirectory'' then Some 3
             else if h = 2 \<and> name = ''SetDefaultDllDirectories'' then Some 4
             else if h = 1 \<and> name = ''GetCLRRuntimeHost'' then Some 1 else None)\<rparr>"

definition example_call_data :: CALL_APPLICATION_MAIN_DATA where
  "example_call_data =
     \<lparr>klrDirectory = Some app_dir, applicationBase = app_dir, argc = 1, argv = [''app''],
      exitcode = 0\<rparr>"

definition example_host :: host where
  "example_host =
     \<lparr>GetCLRRuntimeHost_hr = 0, Authenticate_hr = 0, Start_hr = 0,
      CreateAppDomainWithManager_hr = 0, CreateDelegate_hr = 0,
      HostMain = (\<lambda>argc argv. 42)\<rparr>"

text \<open>
  Further variants: no library loads at all; the allocation fails; nothing matches
  either pattern; the host refuses the authentication; the only match of \<open>*.ni.dll\<close>
  is an excluded file. And the trace of the example up to the allocation.
\<close>

definition nothing_loads_os :: os where
  "nothing_loads_os = example_env_os\<lparr>LoadLibraryExW := (\<lambda>path flags. None)\<rparr>"

definition calloc_fails_os :: os where
  "calloc_fails_os = example_os\<lparr>calloc := False\<rparr>"

definition no_files_os :: os where
  "no_files_os = example_os\<lparr>FindFile := (\<lambda>pattern. [])\<rparr>"

definition auth_fails_host :: host where
  "auth_fails_host = example_host\<lparr>Authenticate_hr := 0x80004005\<rparr>"

definition only_excluded_os :: os where
  "only_excluded_os =
     example_os\<lparr>FindFile :=
       (\<lambda>pattern.
          if pattern = clr_dir @ ''*.ni.dll''
          then [\<lparr>dwFileAttributes = 0x20, cFileName = ''klr.host.ni.dll''\<rparr>]
          else if pattern = clr_dir @ ''*.dll''
          then example_files @ [\<lparr>dwFileAttributes = 0x20, cFileName = ''klr.host.ni.dll''\<rparr>]
          else [])\<rparr>"

definition example_prefix :: "event list" where
  "example_prefix =
     [EvLoadLibrary (development_path example_build) 0, EvLoadLibrary ''coreclr.dll'' 0,
      EvPin (clr_dir @ ''coreclr.dll''), EvGetCLRRuntimeHost,
      EvHost SetStartupFlags, EvHost Authenticate, EvHost Start, EvCalloc]"

section \<open>Properties of \<open>ScanDirectory\<close>\<close>

lemma excluded_iff: "excluded name \<longleftrightarrow> name \<in> set ExclusionSet"
  unfolding excluded_def ExclusionSet_def by (simp only: list.set insert_iff empty_iff simp_thms)

lemma ExclusionSet_twelve: "length ExclusionSet = 12 \<and> distinct ExclusionSet"
  by (simp add: ExclusionSet_def)

lemma wcscat_s_ok: "wcscat_s dest n src = (0, r) \<Longrightarrow> r = dest @ src"
  by (auto simp: wcscat_s_def ERANGE_def split: if_splits)

lemma wcscat_s_cases:
  "wcscat_s dest n src = (0, dest @ src) \<or> wcscat_s dest n src = (ERANGE, [])"
  by (simp add: wcscat_s_def)

lemma scan_loop_True:
  "scan_loop d cch ffds tpa = (True, tpa') \<Longrightarrow>
     tpa' = tpa @ concat (map (entry d) (listed ffds))"
proof (induction ffds arbitrary: tpa)
  case Nil
  then show ?case by (simp add: listed_def)
next
  case (Cons ffd rest)
  show ?case
  proof (cases "is_directory ffd \<or> excluded (cFileName ffd)")
    case True
    with Cons.prems have "scan_loop d cch rest tpa = (True, tpa')"
      by (auto split: if_splits)
    from Cons.IH [OF this] True show ?thesis by (auto simp: listed_def)
  next
    case False
    with Cons.prems obtain t1 t2 t3 where
      a: "wcscat_s tpa cch d = (0, t1)" and
      b: "wcscat_s t1 cch (cFileName ffd) = (0, t2)" and
      c: "wcscat_s t2 cch '';'' = (0, t3)" and
      r: "scan_loop d cch rest t3 = (True, tpa')"
      by (auto split: prod.splits if_splits)
    have "t3 = tpa @ entry d ffd"
      using wcscat_s_ok [OF a] wcscat_s_ok [OF b] wcscat_s_ok [OF c]
      by (simp add: entry_def)
    with Cons.IH [OF r] False show ?thesis by (simp add: listed_def)
  qed
qed

lemma ScanDirectory_True:
  assumes "ScanDirectory sys d pat tpa cch = (True, tpa')"
  shows "tpa' = tpa @ concat (map (entry d) (listed (FindFile sys (d @ pat))))"
    and "FindFile sys (d @ pat) \<noteq> []"
proof -
  from assms obtain p1 p where
    a: "wcscpy_s MAX_PATH d = (0, p1)" and
    b: "wcscat_s p1 MAX_PATH pat = (0, p)" and
    c: "FindFile sys p \<noteq> []" and
    r: "scan_loop d cch (FindFile sys p) tpa = (True, tpa')"
    by (auto simp: ScanDirectory_def split: prod.splits if_splits list.splits)
  from a have "p1 = d" by (auto simp: wcscpy_s_def ERANGE_def split: if_splits)
  with wcscat_s_ok [OF b] have p: "p = d @ pat" by simp
  from scan_loop_True [OF r] p
  show "tpa' = tpa @ concat (map (entry d) (listed (FindFile sys (d @ pat))))" by simp
  from c p show "FindFile sys (d @ pat) \<noteq> []" by simp
qed

lemma length_listed:
  "length (listed ffds) =
     length (filter (\<lambda>ffd. \<not> is_directory ffd) ffds) -
     length (filter (\<lambda>ffd. \<not> is_directory ffd \<and> excluded (cFileName ffd)) ffds)"
proof -
  let ?N = "filter (\<lambda>ffd. \<not> is_directory ffd) ffds"
  have "listed ffds = filter (\<lambda>ffd. \<not> excluded (cFileName ffd)) ?N"
    by (simp add: listed_def conj_commute)
  moreover have "filter (\<lambda>ffd. \<not> is_directory ffd \<and> excluded (cFileName ffd)) ffds =
      filter (\<lambda>ffd. excluded (cFileName ffd)) ?N"
    by (simp add: conj_commute)
  moreover have "length (filter (\<lambda>ffd. \<not> excluded (cFileName ffd)) ?N) =
      length ?N - length (filter (\<lambda>ffd. excluded (cFileName ffd)) ?N)"
    using sum_length_filter_compl [of "\<lambda>ffd. excluded (cFileName ffd)" ?N] by simp
  ultimately show ?thesis by simp
qed

lemma scan_loop_eq:
  "scan_loop d cch ffds tpa =
     (if listed ffds = [] \<or> length tpa + length (concat (map (entry d) (listed ffds))) + 1 \<le> cch
      then (True, tpa @ concat (map (entry d) (listed ffds)))
      else (False, []))"
proof (induction ffds arbitrary: tpa)
  case Nil
  show ?case by (simp add: listed_def)
next
  case (Cons ffd rest)
  show ?case
  proof (cases "is_directory ffd \<or> excluded (cFileName ffd)")
    case True
    then have "listed (ffd # rest) = listed rest" by (auto simp: listed_def)
    with True Cons.IH [of tpa] show ?thesis by auto
  next
    case False
    then have l: "listed (ffd # rest) = ffd # listed rest" by (simp add: listed_def)
    show ?thesis
      using False Cons.IH [of "tpa @ entry d ffd"]
      apply (simp add: l)
      apply (auto simp: wcscat_s_def entry_def ERANGE_def split: prod.splits if_splits)
      done
  qed
qed

lemma ScanDirectory_eq:
  assumes "length d + length pat + 1 \<le> MAX_PATH"
  shows "ScanDirectory sys d pat tpa cch =
     (case FindFile sys (d @ pat) of
        [] \<Rightarrow> (False, tpa)
      | ffd # rest \<Rightarrow> scan_loop d cch (ffd # rest) tpa)"
  using assms by (simp add: ScanDirectory_def wcscpy_s_def wcscat_s_def)

lemma ScanDirectory_False:
  assumes "ScanDirectory sys d pat tpa cch = (False, tpa')"
  shows "tpa' = tpa \<or> tpa' = []"
  using assms
  by (auto simp: ScanDirectory_def scan_loop_eq split: prod.splits if_splits list.splits)

lemma ScanDirectory_char:
  assumes "length d + length pat + 1 \<le> MAX_PATH"
  shows "ScanDirectory sys d pat tpa cch =
     (if FindFile sys (d @ pat) = [] then (False, tpa)
      else if listed (FindFile sys (d @ pat)) = [] \<or>
              length tpa + length (concat (map (entry d) (listed (FindFile sys (d @ pat))))) + 1
                \<le> cch
           then (True, tpa @ concat (map (entry d) (listed (FindFile sys (d @ pat)))))
           else (False, []))"
  using ScanDirectory_eq [OF assms, of sys tpa cch]
  by (cases "FindFile sys (d @ pat)") (simp_all add: scan_loop_eq del: scan_loop.simps)

lemmas example_simps = ScanDirectory_def example_os_def clr_dir_def example_files_def wcscpy_s_def
     wcscat_s_def MAX_PATH_def is_directory_def excluded_def FILE_ATTRIBUTE_DIRECTORY_def backslash_def

lemma example_scan:
  "ScanDirectory example_os clr_dir ''*.dll'' [] 64 =
     (True, clr_dir @ ''mscorlib.dll;'' @ clr_dir @ ''System.dll;'')"
  by (simp add: example_simps)

lemma example_scan_overflow:
  "ScanDirectory example_os clr_dir ''*.dll'' [] 8 = (False, [])"
  by (simp add: example_simps ERANGE_def)

text \<open>
  Claim C1. A call of \<open>ScanDirectory\<close> that returns \<open>true\<close> has appended to the buffer, for
  each find data of the enumeration that is neither a directory nor excluded, the
  directory, the file name and \<open>;\<close>, in the order of the enumeration. Their number is
  the number \<open>N\<close> of the files that are not directories less the number \<open>E\<close> of those
  among them whose name is in the exclusion set.
\<close>

theorem ScanDirectory_entries:
  assumes "ScanDirectory sys szDirectory szPattern tpa cch = (True, tpa')"
  shows "tpa' = tpa @ concat (map (\<lambda>ffd. szDirectory @ cFileName ffd @ '';'')
             (filter (\<lambda>ffd. \<not> is_directory ffd \<and> \<not> excluded (cFileName ffd))
                (FindFile sys (szDirectory @ szPattern))))
       \<and> length (filter (\<lambda>ffd. \<not> is_directory ffd \<and> \<not> excluded (cFileName ffd))
                (FindFile sys (szDirectory @ szPattern))) =
         length (filter (\<lambda>ffd. \<not> is_directory ffd) (FindFile sys (szDirectory @ szPattern))) -
         length (filter (\<lambda>ffd. \<not> is_directory ffd \<and> cFileName ffd \<in> set ExclusionSet)
                (FindFile sys (szDirectory @ szPattern)))"
proof -
  have e: "entry szDirectory = (\<lambda>ffd. szDirectory @ cFileName ffd @ '';'')"
    by (rule ext) (simp add: entry_def)
  from ScanDirectory_True(1) [OF assms] length_listed [of "FindFile sys (szDirectory @ szPattern)"]
  show ?thesis by (simp add: e listed_def excluded_iff)
qed

theorem ScanDirectory_entries_witness:
  "ScanDirectory example_os clr_dir ''*.dll'' [] 64 =
     (True, clr_dir @ ''mscorlib.dll;'' @ clr_dir @ ''System.dll;'')
   \<and> length (filter (\<lambda>ffd. \<not> is_directory ffd \<and> \<not> excluded (cFileName ffd))
                (FindFile example_os (clr_dir @ ''*.dll''))) = 3 - 1"
  using ScanDirectory_entries [OF example_scan]
  by (simp add: example_simps ExclusionSet_def)

text \<open>
  Claim C2. Whatever the directory holds, the entries that \<open>ScanDirectory\<close> appends are
  those of the listed files, and no listed file has a name of the exclusion set; a
  call that returns \<open>false\<close> leaves the buffer as it was or empty.
\<close>

theorem ScanDirectory_never_emits_excluded:
  assumes "ScanDirectory sys szDirectory szPattern tpa cch = (ret, tpa')"
  shows "(ret \<longrightarrow> tpa' = tpa @ concat (map (\<lambda>ffd. szDirectory @ cFileName ffd @ '';'')
                      (listed (FindFile sys (szDirectory @ szPattern)))))
       \<and> (\<not> ret \<longrightarrow> tpa' = tpa \<or> tpa' = [])
       \<and> (\<forall>ffd \<in> set (listed (FindFile sys (szDirectory @ szPattern))).
             cFileName ffd \<notin> set ExclusionSet)"
proof -
  have e: "entry szDirectory = (\<lambda>ffd. szDirectory @ cFileName ffd @ '';'')"
    by (rule ext) (simp add: entry_def)
  have "\<forall>ffd \<in> set (listed (FindFile sys (szDirectory @ szPattern))).
             cFileName ffd \<notin> set ExclusionSet"
    by (simp add: listed_def excluded_iff)
  moreover have "ret \<Longrightarrow> tpa' = tpa @ concat (map (\<lambda>ffd. szDirectory @ cFileName ffd @ '';'')
                      (listed (FindFile sys (szDirectory @ szPattern))))"
    using ScanDirectory_True(1) [of sys szDirectory szPattern tpa cch tpa'] assms by (simp add: e)
  moreover have "\<not> ret \<Longrightarrow> tpa' = tpa \<or> tpa' = []"
    using ScanDirectory_False [of sys szDirectory szPattern tpa cch tpa'] assms by simp
  ultimately show ?thesis by blast
qed

theorem ScanDirectory_never_emits_excluded_witness:
  "ScanDirectory example_os clr_dir ''*.dll'' [] 64 =
     (True, clr_dir @ ''mscorlib.dll;'' @ clr_dir @ ''System.dll;'')
   \<and> ''klr.host.dll'' \<in> cFileName ` set (FindFile example_os (clr_dir @ ''*.dll''))
   \<and> ''klr.host.dll'' \<in> set ExclusionSet
   \<and> cFileName ` set (listed (FindFile example_os (clr_dir @ ''*.dll''))) \<inter> set ExclusionSet = {}
   \<and> ScanDirectory example_os clr_dir ''*.dll'' [] 8 = (False, [])"
proof -
  have f: "FindFile example_os (clr_dir @ ''*.dll'') = example_files"
    by (simp add: example_os_def)
  from ScanDirectory_never_emits_excluded [OF example_scan]
  have 1: "cFileName ` set (listed (FindFile example_os (clr_dir @ ''*.dll''))) \<inter>
             set ExclusionSet = {}"
    by auto
  from ScanDirectory_never_emits_excluded [OF example_scan_overflow]
  have 2: "ScanDirectory example_os clr_dir ''*.dll'' [] 8 = (False, [])"
    using example_scan_overflow by simp
  have 3: "''klr.host.dll'' \<in> cFileName ` set (FindFile example_os (clr_dir @ ''*.dll''))
           \<and> ''klr.host.dll'' \<in> set ExclusionSet"
    by (simp add: f example_files_def ExclusionSet_def)
  from 1 2 3 example_scan show ?thesis by simp
qed

section \<open>Properties of \<open>LoadCoreClr\<close>\<close>

lemma scan_loader_modules_first:
  assumes "first_loader_module sys = Some (h, pAdd, pSet)"
  shows "scan_loader_modules sys v 0 h0 a0 s0 tr =
           Some (Some h, Some pAdd, Some pSet, tr @ loader_trace v)"
  using assms
  by (subst scan_loader_modules.simps)
     (simp add: first_loader_module_def rgwzOSLoaderModuleNames_def loader_trace_def
           split: option.splits)

lemma scan_loader_modules_Some:
  assumes "scan_loader_modules sys v i h0 a0 s0 tr = Some r"
  shows "i = 0 \<longrightarrow> first_loader_module sys \<noteq> None"
proof (rule scan_loader_modules.raw_induct
         [where P = "\<lambda>sys v i h0 a0 s0 tr r. i = 0 \<longrightarrow> first_loader_module sys \<noteq> None",
          OF _ assms])
  fix f sys v i h0 a0 s0 tr r
  assume IH: "\<And>sys v i h0 a0 s0 tr r. f sys v i h0 a0 s0 tr = Some r \<Longrightarrow>
                 i = 0 \<longrightarrow> first_loader_module sys \<noteq> None"
    and step: "(case rgwzOSLoaderModuleNames ! i of
        None \<Rightarrow> Some (h0, a0, s0, tr)
      | Some name \<Rightarrow>
         (case LoadLibraryExW sys name LOAD_LIBRARY_SEARCH_DEFAULT_DIRS of
            None \<Rightarrow>
              f sys v i None a0 s0
                (tr @ [EvLoadLibrary name LOAD_LIBRARY_SEARCH_DEFAULT_DIRS] @
                   (if v
                    then [EvPrintf (''Failed to load: %s'' @ [carriage_return, newline])
                            [ArgStr name]]
                    else []))
          | Some h \<Rightarrow>
             (let tr1 = tr @ [EvLoadLibrary name LOAD_LIBRARY_SEARCH_DEFAULT_DIRS] @
                   (if v
                    then [EvPrintf (''Loaded Module: %s'' @ [carriage_return, newline])
                            [ArgStr name]]
                    else [])
              in
              (case GetProcAddress sys h ''AddDllDirectory'' of
                 None \<Rightarrow>
                   f sys v i (Some h) None s0
                     (tr1 @ (if v
                             then [EvPrintf (''Failed to find function %S in %s'' @ [newline])
                                     [ArgStr ''AddDllDirectory'', ArgStr name]]
                             else []))
               | Some pAdd \<Rightarrow>
                  (case GetProcAddress sys h ''SetDefaultDllDirectories'' of
                     None \<Rightarrow>
                       f sys v i (Some h) (Some pAdd) None
                         (tr1 @ (if v
                                 then [EvPrintf (''Failed to find function %S in %s'' @ [newline])
                                         [ArgStr ''SetDefaultDllDirectories'', ArgStr name]]
                                 else []))
                   | Some pSet \<Rightarrow>
                       if Some h \<noteq> None \<and> Some pAdd \<noteq> None \<and> Some pSet \<noteq> None
                       then Some (Some h, Some pAdd, Some pSet, tr1)
                       else
                         f sys v (i + 1) (Some h) (Some pAdd) (Some pSet) tr1))))) = Some r"
  show "i = 0 \<longrightarrow> first_loader_module sys \<noteq> None"
  proof
    assume i: "i = 0"
    from step i
    have "first_loader_module sys \<noteq> None \<or> (\<exists>h' a' s' tr'. f sys v 0 h' a' s' tr' = Some r)"
      by (auto simp: rgwzOSLoaderModuleNames_def first_loader_module_def Let_def
               split: option.splits)
    with IH show "first_loader_module sys \<noteq> None" by blast
  qed
qed

lemma scan_loader_modules_None:
  assumes "first_loader_module sys = None"
  shows "scan_loader_modules sys v 0 h0 a0 s0 tr = None"
proof (cases "scan_loader_modules sys v 0 h0 a0 s0 tr")
  case None then show ?thesis .
next
  case (Some r)
  from scan_loader_modules_Some [OF Some] assms show ?thesis by simp
qed

lemma clr_path_eq:
  assumes "dir \<noteq> []"
  shows "clr_path dir =
     (if length (with_separator dir @ ''coreclr.dll'') < MAX_PATH
      then Some (with_separator dir @ ''coreclr.dll'') else None)"
  using assms
  by (auto simp: clr_path_def with_separator_def wcscpy_s_def wcscat_s_def MAX_PATH_def ERANGE_def)

lemma load_fallbacks_None:
  "load_fallbacks cfg sys (None, tr) =
     (fst (first_successful_load sys [development_path cfg, ''coreclr.dll'']),
      tr @ map (\<lambda>p. EvLoadLibrary p 0)
             (snd (first_successful_load sys [development_path cfg, ''coreclr.dll''])))"
  by (simp add: load_fallbacks_def split: option.splits)

lemma load_fallbacks_first:
  "load_fallbacks cfg sys (LoadLibraryExW sys p 0, tr @ [EvLoadLibrary p 0]) =
     (fst (first_successful_load sys [p, development_path cfg, ''coreclr.dll'']),
      tr @ map (\<lambda>p. EvLoadLibrary p 0)
             (snd (first_successful_load sys [p, development_path cfg, ''coreclr.dll''])))"
  by (simp add: load_fallbacks_def split: option.splits)

lemma LoadCoreClr_unset:
  assumes "environment_path sys = None"
  shows "LoadCoreClr cfg sys = Returns (load_fallbacks cfg sys (None, []))"
  using assms
  by (auto simp: LoadCoreClr_def GetEnvironmentVariableW_def environment_path_def MAX_PATH_def
           split: option.splits if_splits)

lemma LoadCoreClr_set:
  assumes env: "environment sys ''CORECLR_DIR'' = Some dir" and ne: "dir \<noteq> []"
    and fits: "length (with_separator dir @ ''coreclr.dll'') < MAX_PATH"
  shows "LoadCoreClr cfg sys =
     (if Win7PlusCoreSystem cfg \<and> first_loader_module sys = None then Diverges
      else Returns (load_fallbacks cfg sys
             (LoadLibraryExW sys (with_separator dir @ ''coreclr.dll'') 0,
              widening_trace cfg sys dir @
              [EvLoadLibrary (with_separator dir @ ''coreclr.dll'') 0])))"
proof -
  have l: "length dir < MAX_PATH"
    using fits by (simp add: with_separator_def split: if_splits)
  have g: "GetEnvironmentVariableW sys ''CORECLR_DIR'' MAX_PATH = (length dir, Some dir)"
    using env l by (simp add: GetEnvironmentVariableW_def)
  have c: "clr_path dir = Some (with_separator dir @ ''coreclr.dll'')"
    using clr_path_eq [OF ne] fits by simp
  show ?thesis
  proof (cases "Win7PlusCoreSystem cfg")
    case False
    then show ?thesis using g c ne by (simp add: LoadCoreClr_def widening_trace_def)
  next
    case True
    show ?thesis
    proof (cases "first_loader_module sys")
      case None
      from scan_loader_modules_None [OF None] True None g c ne
      show ?thesis by (simp add: LoadCoreClr_def)
    next
      case (Some m)
      obtain h a b where m: "m = (h, a, b)" by (cases m)
      from scan_loader_modules_first [of sys h a b] Some m True g c ne
      show ?thesis
        by (simp add: LoadCoreClr_def widen_search_path_def widening_trace_def)
    qed
  qed
qed

lemma flags_nonzero: "LOAD_LIBRARY_SEARCH_DEFAULT_DIRS \<noteq> 0"
  by (simp add: LOAD_LIBRARY_SEARCH_DEFAULT_DIRS_def)

lemma widening_trace_no_load: "EvLoadLibrary p 0 \<notin> set (widening_trace cfg sys dir)"
  using flags_nonzero by (auto simp: widening_trace_def loader_trace_def)

lemma CallApplicationMain_not_located:
  assumes "LoadCoreClr cfg sys = Returns (None, tr)"
    and "case klrDirectory data of
           Some dir \<Rightarrow> length dir < MAX_PATH
         | None \<Rightarrow> GetModuleDirectory (stored_path (GetModuleFileName sys None)) \<noteq> None"
  shows "CallApplicationMain cfg sys rt data =
           Returns (False, data, tr @ [printf_s ''Failed to locate coreclr.dll.'' []])"
  using assms by (auto simp: CallApplicationMain_def wcscpy_s_def split: option.splits)

lemma LoadCoreClr_overflow:
  assumes "environment sys ''CORECLR_DIR'' = Some dir" and "dir \<noteq> []"
    and "length dir < MAX_PATH"
    and "MAX_PATH \<le> length (with_separator dir @ ''coreclr.dll'')"
  shows "LoadCoreClr cfg sys = Returns (None, [])"
  using assms clr_path_eq [OF assms(2)]
  by (simp add: LoadCoreClr_def GetEnvironmentVariableW_def)

lemmas example_os_simps = example_os_def example_env_os_def long_dir_os_def loader_os_def
  nothing_loads_os_def example_build_def win7_build_def env_dir_def clr_dir_def app_dir_def
  backslash_def

lemma example_env_path:
  "environment_path example_env_os = Some (env_dir @ [backslash] @ ''coreclr.dll'')"
  by (simp add: environment_path_def with_separator_def example_os_simps)

lemma nothing_loads_env_path:
  "environment_path nothing_loads_os = Some (env_dir @ [backslash] @ ''coreclr.dll'')"
  by (simp add: environment_path_def with_separator_def example_os_simps)

lemma loader_os_env_path:
  "environment_path loader_os = Some (env_dir @ [backslash] @ ''coreclr.dll'')"
  by (simp add: environment_path_def with_separator_def example_os_simps)

lemma loader_os_first_module: "first_loader_module loader_os = Some (2, 3, 4)"
  by (simp add: first_loader_module_def example_os_simps)

text \<open>
  Claim C3, as amended. When \<open>CORECLR_DIR\<close> is not set or empty, or the path built
  from it (the directory, a separator where it lacks one, the file name of the
  library) has fewer than \<open>MAX_PATH\<close> characters and, on \<open>Win7PlusCoreSystem\<close>, the first
  loader module provides both search-path functions, \<open>LoadCoreClr\<close> returns, and it has
  tried the candidates of the chain in order: the library in the directory of \<open>CORECLR_DIR\<close>, when the variable
  is set and not empty, then the development path, then the bare file name; each one
  only when the ones before gave no handle; the first handle is the result. When
  all fail the handle is null, and \<open>CallApplicationMain\<close>, where it has its own
  directory (\<open>klrDirectory\<close> is given with fewer than \<open>MAX_PATH\<close> characters, or it is
  not given and the stored path of the executable has a backslash), reports that the
  library was not located and returns \<open>false\<close>. When the value of \<open>CORECLR_DIR\<close> has
  fewer than \<open>MAX_PATH\<close> characters and the path built from it has not, \<open>LoadCoreClr\<close>
  returns the null handle with no load tried, and \<open>CallApplicationMain\<close> fails in the
  same way.
\<close>

theorem LoadCoreClr_fallback_chain:
  "((case environment_path sys of
       None \<Rightarrow> True
     | Some path \<Rightarrow>
         length path < MAX_PATH \<and>
         (Win7PlusCoreSystem cfg \<longrightarrow> first_loader_module sys \<noteq> None)) \<longrightarrow>
    (\<exists>pre.
       LoadCoreClr cfg sys =
         Returns (fst (first_successful_load sys (locate_chain cfg sys)),
                  pre @ map (\<lambda>path. EvLoadLibrary path 0)
                          (snd (first_successful_load sys (locate_chain cfg sys))))
     \<and> (\<forall>path. EvLoadLibrary path 0 \<notin> set pre)
     \<and> (fst (first_successful_load sys (locate_chain cfg sys)) = None \<and>
         (case klrDirectory data of
            Some dir \<Rightarrow> length dir < MAX_PATH
          | None \<Rightarrow> GetModuleDirectory (stored_path (GetModuleFileName sys None)) \<noteq> None) \<longrightarrow>
         CallApplicationMain cfg sys rt data =
           Returns (False, data,
             pre @ map (\<lambda>path. EvLoadLibrary path 0)
                     (snd (first_successful_load sys (locate_chain cfg sys))) @
             [printf_s ''Failed to locate coreclr.dll.'' []]))))
   \<and> (\<forall>dir.
        environment sys ''CORECLR_DIR'' = Some dir \<and> dir \<noteq> [] \<and> length dir < MAX_PATH \<and>
        MAX_PATH \<le> length (with_separator dir @ ''coreclr.dll'') \<longrightarrow>
        LoadCoreClr cfg sys = Returns (None, []) \<and>
        ((case klrDirectory data of
            Some dir \<Rightarrow> length dir < MAX_PATH
          | None \<Rightarrow> GetModuleDirectory (stored_path (GetModuleFileName sys None)) \<noteq> None) \<longrightarrow>
         CallApplicationMain cfg sys rt data =
           Returns (False, data, [printf_s ''Failed to locate coreclr.dll.'' []])))"
proof (rule conjI)
  let ?r = "first_successful_load sys (locate_chain cfg sys)"
  let ?cur = "case klrDirectory data of
            Some dir \<Rightarrow> length dir < MAX_PATH
          | None \<Rightarrow> GetModuleDirectory (stored_path (GetModuleFileName sys None)) \<noteq> None"
  show "(case environment_path sys of
       None \<Rightarrow> True
     | Some path \<Rightarrow>
         length path < MAX_PATH \<and>
         (Win7PlusCoreSystem cfg \<longrightarrow> first_loader_module sys \<noteq> None)) \<longrightarrow>
    (\<exists>pre.
       LoadCoreClr cfg sys = Returns (fst ?r, pre @ map (\<lambda>path. EvLoadLibrary path 0) (snd ?r))
     \<and> (\<forall>path. EvLoadLibrary path 0 \<notin> set pre)
     \<and> (fst ?r = None \<and> ?cur \<longrightarrow>
         CallApplicationMain cfg sys rt data =
           Returns (False, data,
             pre @ map (\<lambda>path. EvLoadLibrary path 0) (snd ?r) @
             [printf_s ''Failed to locate coreclr.dll.'' []])))"
  proof
    assume hyp: "case environment_path sys of
       None \<Rightarrow> True
     | Some path \<Rightarrow>
         length path < MAX_PATH \<and>
         (Win7PlusCoreSystem cfg \<longrightarrow> first_loader_module sys \<noteq> None)"
    have "\<exists>pre. LoadCoreClr cfg sys =
               Returns (fst ?r, pre @ map (\<lambda>path. EvLoadLibrary path 0) (snd ?r))
           \<and> (\<forall>path. EvLoadLibrary path 0 \<notin> set pre)"
    proof (cases "environment_path sys")
      case None
      then have "LoadCoreClr cfg sys =
          Returns (fst ?r, [] @ map (\<lambda>path. EvLoadLibrary path 0) (snd ?r))"
        using LoadCoreClr_unset [OF None, of cfg] load_fallbacks_None [of cfg sys "[]"]
        by (simp add: locate_chain_def)
      then show ?thesis by (intro exI [of _ "[]"]) simp
    next
      case (Some path)
      then obtain dir where env: "environment sys ''CORECLR_DIR'' = Some dir" and ne: "dir \<noteq> []"
        and path: "path = with_separator dir @ ''coreclr.dll''"
        by (auto simp: environment_path_def split: option.splits if_splits)
      from hyp Some path have fits: "length (with_separator dir @ ''coreclr.dll'') < MAX_PATH"
        and w: "Win7PlusCoreSystem cfg \<longrightarrow> first_loader_module sys \<noteq> None" by simp_all
      have "LoadCoreClr cfg sys =
          Returns (fst ?r,
            widening_trace cfg sys dir @ map (\<lambda>path. EvLoadLibrary path 0) (snd ?r))"
        using LoadCoreClr_set [OF env ne fits, of cfg] w
          load_fallbacks_first [of cfg sys path "widening_trace cfg sys dir"] Some path
        by (simp add: locate_chain_def)
      with widening_trace_no_load show ?thesis by blast
    qed
    then obtain pre where
      l: "LoadCoreClr cfg sys =
            Returns (fst ?r, pre @ map (\<lambda>path. EvLoadLibrary path 0) (snd ?r))"
      and p: "\<forall>path. EvLoadLibrary path 0 \<notin> set pre" by blast
    have "fst ?r = None \<and> ?cur \<longrightarrow>
          CallApplicationMain cfg sys rt data =
            Returns (False, data, pre @ map (\<lambda>path. EvLoadLibrary path 0) (snd ?r) @
                       [printf_s ''Failed to locate coreclr.dll.'' []])"
      using l CallApplicationMain_not_located
                [of cfg sys "pre @ map (\<lambda>path. EvLoadLibrary path 0) (snd ?r)" data rt]
      by simp
    with l p show "\<exists>pre.
       LoadCoreClr cfg sys = Returns (fst ?r, pre @ map (\<lambda>path. EvLoadLibrary path 0) (snd ?r))
     \<and> (\<forall>path. EvLoadLibrary path 0 \<notin> set pre)
     \<and> (fst ?r = None \<and> ?cur \<longrightarrow>
         CallApplicationMain cfg sys rt data =
           Returns (False, data,
             pre @ map (\<lambda>path. EvLoadLibrary path 0) (snd ?r) @
             [printf_s ''Failed to locate coreclr.dll.'' []]))"
      by (intro exI [of _ pre] conjI)
  qed
next
  let ?cur = "case klrDirectory data of
            Some dir \<Rightarrow> length dir < MAX_PATH
          | None \<Rightarrow> GetModuleDirectory (stored_path (GetModuleFileName sys None)) \<noteq> None"
  have "LoadCoreClr cfg sys = Returns (None, []) \<and>
        (?cur \<longrightarrow>
         CallApplicationMain cfg sys rt data =
           Returns (False, data, [printf_s ''Failed to locate coreclr.dll.'' []]))"
    if h: "environment sys ''CORECLR_DIR'' = Some dir \<and> dir \<noteq> [] \<and> length dir < MAX_PATH \<and>
        MAX_PATH \<le> length (with_separator dir @ ''coreclr.dll'')" for dir
  proof -
    from h have l: "LoadCoreClr cfg sys = Returns (None, [])"
      by (simp add: LoadCoreClr_overflow)
    from CallApplicationMain_not_located [OF l, of data rt] l show ?thesis by simp
  qed
  then show "\<forall>dir.
        environment sys ''CORECLR_DIR'' = Some dir \<and> dir \<noteq> [] \<and> length dir < MAX_PATH \<and>
        MAX_PATH \<le> length (with_separator dir @ ''coreclr.dll'') \<longrightarrow>
        LoadCoreClr cfg sys = Returns (None, []) \<and>
        (?cur \<longrightarrow>
         CallApplicationMain cfg sys rt data =
           Returns (False, data, [printf_s ''Failed to locate coreclr.dll.'' []]))"
    by blast
qed

theorem LoadCoreClr_fallback_chain_witness:
  "environment_path example_env_os = Some (env_dir @ [backslash] @ ''coreclr.dll'')
   \<and> length (env_dir @ [backslash] @ ''coreclr.dll'') < MAX_PATH
   \<and> \<not> Win7PlusCoreSystem example_build
   \<and> (\<exists>pre. LoadCoreClr example_build example_env_os =
         Returns (Some 1,
           pre @ [EvLoadLibrary (env_dir @ [backslash] @ ''coreclr.dll'') 0,
                  EvLoadLibrary (development_path example_build) 0,
                  EvLoadLibrary ''coreclr.dll'' 0]))
   \<and> environment_path loader_os = Some (env_dir @ [backslash] @ ''coreclr.dll'')
   \<and> Win7PlusCoreSystem win7_build \<and> first_loader_module loader_os = Some (2, 3, 4)
   \<and> (\<exists>pre. LoadCoreClr win7_build loader_os =
         Returns (Some 1,
           pre @ [EvLoadLibrary (env_dir @ [backslash] @ ''coreclr.dll'') 0,
                  EvLoadLibrary (development_path win7_build) 0,
                  EvLoadLibrary ''coreclr.dll'' 0]))
   \<and> environment_path nothing_loads_os = Some (env_dir @ [backslash] @ ''coreclr.dll'')
   \<and> klrDirectory example_call_data = Some app_dir \<and> length app_dir < MAX_PATH
   \<and> (\<exists>pre. CallApplicationMain example_build nothing_loads_os example_host example_call_data =
         Returns (False, example_call_data,
           pre @ [EvLoadLibrary (env_dir @ [backslash] @ ''coreclr.dll'') 0,
                  EvLoadLibrary (development_path example_build) 0,
                  EvLoadLibrary ''coreclr.dll'' 0,
                  printf_s ''Failed to locate coreclr.dll.'' []]))
   \<and> environment long_dir_os ''CORECLR_DIR'' = Some (replicate 250 (CHR ''a''))
   \<and> length (replicate 250 (CHR ''a'')) < MAX_PATH
   \<and> MAX_PATH \<le> length (with_separator (replicate 250 (CHR ''a'')) @ ''coreclr.dll'')
   \<and> LoadCoreClr example_build long_dir_os = Returns (None, [])
   \<and> CallApplicationMain example_build long_dir_os example_host example_call_data =
         Returns (False, example_call_data, [printf_s ''Failed to locate coreclr.dll.'' []])"
proof -
  note chain = LoadCoreClr_fallback_chain [THEN conjunct1, rule_format]
  note overflow = LoadCoreClr_fallback_chain [THEN conjunct2, rule_format]
  have d: "klrDirectory example_call_data = Some app_dir \<and> length app_dir < MAX_PATH"
    by (simp add: example_call_data_def app_dir_def MAX_PATH_def)
  then have cur: "case klrDirectory example_call_data of
            Some dir \<Rightarrow> length dir < MAX_PATH
          | None \<Rightarrow> GetModuleDirectory (stored_path (GetModuleFileName sys None)) \<noteq> None"
    for sys by simp
  have h: "case environment_path example_env_os of
             None \<Rightarrow> True
           | Some path \<Rightarrow>
               length path < MAX_PATH \<and>
               (Win7PlusCoreSystem example_build \<longrightarrow> first_loader_module example_env_os \<noteq> None)"
    by (simp add: example_env_path) (simp add: example_os_simps MAX_PATH_def)
  have c: "first_successful_load example_env_os (locate_chain example_build example_env_os) =
     (Some 1, [env_dir @ [backslash] @ ''coreclr.dll'', development_path example_build,
               ''coreclr.dll''])"
    by (simp add: locate_chain_def example_env_path)
       (simp add: example_os_simps development_path_def)
  from chain [where sys = example_env_os and cfg = example_build
                and data = example_call_data and rt = example_host, OF h] c
  have 1: "\<exists>pre. LoadCoreClr example_build example_env_os =
         Returns (Some 1,
           pre @ [EvLoadLibrary (env_dir @ [backslash] @ ''coreclr.dll'') 0,
                  EvLoadLibrary (development_path example_build) 0,
                  EvLoadLibrary ''coreclr.dll'' 0])"
    by auto
  have w: "Win7PlusCoreSystem win7_build" by (simp add: win7_build_def)
  have hw: "case environment_path loader_os of
             None \<Rightarrow> True
           | Some path \<Rightarrow>
               length path < MAX_PATH \<and>
               (Win7PlusCoreSystem win7_build \<longrightarrow> first_loader_module loader_os \<noteq> None)"
    by (simp add: loader_os_env_path loader_os_first_module)
       (simp add: example_os_simps MAX_PATH_def)
  have cw: "first_successful_load loader_os (locate_chain win7_build loader_os) =
     (Some 1, [env_dir @ [backslash] @ ''coreclr.dll'', development_path win7_build,
               ''coreclr.dll''])"
    by (simp add: locate_chain_def loader_os_env_path)
       (simp add: example_os_simps development_path_def)
  from chain [where sys = loader_os and cfg = win7_build
                and data = example_call_data and rt = example_host, OF hw] cw
  have 2: "\<exists>pre. LoadCoreClr win7_build loader_os =
         Returns (Some 1,
           pre @ [EvLoadLibrary (env_dir @ [backslash] @ ''coreclr.dll'') 0,
                  EvLoadLibrary (development_path win7_build) 0,
                  EvLoadLibrary ''coreclr.dll'' 0])"
    by auto
  have h': "case environment_path nothing_loads_os of
             None \<Rightarrow> True
           | Some path \<Rightarrow>
               length path < MAX_PATH \<and>
               (Win7PlusCoreSystem example_build \<longrightarrow> first_loader_module nothing_loads_os \<noteq> None)"
    by (simp add: nothing_loads_env_path) (simp add: example_os_simps MAX_PATH_def)
  have c': "first_successful_load nothing_loads_os (locate_chain example_build nothing_loads_os) =
     (None, [env_dir @ [backslash] @ ''coreclr.dll'', development_path example_build,
             ''coreclr.dll''])"
    by (simp add: locate_chain_def nothing_loads_env_path)
       (simp add: example_os_simps)
  from chain [where sys = nothing_loads_os and cfg = example_build
                and data = example_call_data and rt = example_host, OF h'] c'
    cur [of nothing_loads_os]
  have 3: "\<exists>pre. CallApplicationMain example_build nothing_loads_os example_host example_call_data =
         Returns (False, example_call_data,
           pre @ [EvLoadLibrary (env_dir @ [backslash] @ ''coreclr.dll'') 0,
                  EvLoadLibrary (development_path example_build) 0,
                  EvLoadLibrary ''coreclr.dll'' 0,
                  printf_s ''Failed to locate coreclr.dll.'' []])"
    by auto
  have o: "environment long_dir_os ''CORECLR_DIR'' = Some (replicate 250 (CHR ''a''))
       \<and> replicate 250 (CHR ''a'') \<noteq> []
       \<and> length (replicate 250 (CHR ''a'')) < MAX_PATH
       \<and> MAX_PATH \<le> length (with_separator (replicate 250 (CHR ''a'')) @ ''coreclr.dll'')"
    by (simp add: long_dir_os_def example_os_def with_separator_def MAX_PATH_def backslash_def)
  from overflow [where sys = long_dir_os and cfg = example_build
                   and data = example_call_data and rt = example_host, OF o]
    cur [of long_dir_os]
  have 4: "LoadCoreClr example_build long_dir_os = Returns (None, [])
       \<and> CallApplicationMain example_build long_dir_os example_host example_call_data =
         Returns (False, example_call_data, [printf_s ''Failed to locate coreclr.dll.'' []])"
    by simp
  have 5: "length (env_dir @ [backslash] @ ''coreclr.dll'') < MAX_PATH
           \<and> \<not> Win7PlusCoreSystem example_build"
    by (simp add: example_os_simps MAX_PATH_def)
  from 1 2 3 4 5 d o w example_env_path nothing_loads_env_path loader_os_env_path
    loader_os_first_module
  show ?thesis by simp
qed

text \<open>
  Claim C3 as stated fails: for a value of \<open>CORECLR_DIR\<close> of 250 characters the path
  of the library does not fit, line 114 jumps to \<open>Finished\<close>, and \<open>LoadCoreClr\<close> returns
  the null handle without trying the two fallbacks, of which the last would load.
\<close>

theorem LoadCoreClr_long_directory_counterexample:
  "LoadCoreClr example_build long_dir_os = Returns (None, [])
   \<and> LoadLibraryExW long_dir_os ''coreclr.dll'' 0 = Some 1"
  by (simp add: LoadCoreClr_def GetEnvironmentVariableW_def clr_path_def wcscpy_s_def wcscat_s_def
        MAX_PATH_def ERANGE_def example_os_simps)

text \<open>
  Claim C8 fails on the code. On \<open>Win7PlusCoreSystem\<close> with \<open>CORECLR_DIR\<close> set, where
  neither module of the loader list can be loaded, \<open>LoadCoreClr\<close> does not go on to
  load the runtime library, which would load by its bare name: the \<open>continue\<close> of line
  149 tests the same module name again, and the call does not return.
\<close>

theorem LoadCoreClr_no_loader_module_diverges:
  "LoadLibraryExW example_env_os ''api-ms-win-core-libraryloader-l1-1-1.dll''
      LOAD_LIBRARY_SEARCH_DEFAULT_DIRS = None
   \<and> LoadLibraryExW example_env_os ''kernel32.dll'' LOAD_LIBRARY_SEARCH_DEFAULT_DIRS = None
   \<and> LoadLibraryExW example_env_os ''coreclr.dll'' 0 = Some 1
   \<and> LoadCoreClr win7_build example_env_os = Diverges"
proof -
  have n: "first_loader_module example_env_os = None"
    by (simp add: first_loader_module_def example_os_simps)
  have b: "environment example_env_os ''CORECLR_DIR'' = Some env_dir"
    by (simp add: example_os_simps)
  have c: "env_dir \<noteq> []" by (simp add: example_os_simps)
  have d: "length (with_separator env_dir @ ''coreclr.dll'') < MAX_PATH"
    by (simp add: with_separator_def example_os_simps MAX_PATH_def)
  from LoadCoreClr_set [OF b c d, of win7_build] n
  have "LoadCoreClr win7_build example_env_os = Diverges"
    by (simp add: win7_build_def)
  then show ?thesis by (simp add: example_os_simps)
qed

section \<open>Properties of \<open>CallApplicationMain\<close>\<close>

lemma host_calls_append [simp]: "host_calls (xs @ ys) = host_calls xs @ host_calls ys"
  by (induction xs rule: host_calls.induct) auto

lemma host_calls_loader [simp]: "\<forall>e \<in> set tr. loader_event e \<Longrightarrow> host_calls tr = []"
  by (induction tr rule: host_calls.induct) auto

lemma loader_event_not [simp]:
  "\<forall>e \<in> set tr. loader_event e \<Longrightarrow> EvCalloc \<notin> set tr"
  "\<forall>e \<in> set tr. loader_event e \<Longrightarrow> EvFree \<notin> set tr"
  "\<forall>e \<in> set tr. loader_event e \<Longrightarrow> EvScanDirectory p \<notin> set tr"
  "\<forall>e \<in> set tr. loader_event e \<Longrightarrow> EvHost c \<notin> set tr"
  "\<forall>e \<in> set tr. loader_event e \<Longrightarrow> EvHostMain a b \<notin> set tr"
  "\<forall>e \<in> set tr. loader_event e \<Longrightarrow> EvGetCLRRuntimeHost \<notin> set tr"
  by auto

lemma load_fallbacks_loader:
  assumes "\<forall>e \<in> set tr. loader_event e"
  shows "\<forall>e \<in> set (snd (load_fallbacks cfg sys (h, tr))). loader_event e"
  using assms by (auto simp: load_fallbacks_def)

lemma loader_trace_loader: "\<forall>e \<in> set (loader_trace v). loader_event e"
  by (simp add: loader_trace_def)

lemma LoadCoreClr_loader:
  assumes "LoadCoreClr cfg sys = Returns (h, tr)"
  shows "\<forall>e \<in> set tr. loader_event e"
proof (cases "environment_path sys")
  case None
  from LoadCoreClr_unset [OF None, of cfg] assms load_fallbacks_loader [of "[]" cfg sys None]
  show ?thesis by (metis empty_iff list.set(1) outcome.inject snd_conv)
next
  case (Some path)
  then obtain dir where env: "environment sys ''CORECLR_DIR'' = Some dir" and ne: "dir \<noteq> []"
    by (auto simp: environment_path_def split: option.splits if_splits)
  show ?thesis
  proof (cases "length (with_separator dir @ ''coreclr.dll'') < MAX_PATH")
    case True
    have w: "\<forall>e \<in> set (widening_trace cfg sys dir @
              [EvLoadLibrary (with_separator dir @ ''coreclr.dll'') 0]). loader_event e"
      using loader_trace_loader by (auto simp: widening_trace_def)
    from LoadCoreClr_set [OF env ne True, of cfg] assms
    have "(h, tr) = load_fallbacks cfg sys
             (LoadLibraryExW sys (with_separator dir @ ''coreclr.dll'') 0,
              widening_trace cfg sys dir @
              [EvLoadLibrary (with_separator dir @ ''coreclr.dll'') 0])"
      by (simp split: if_splits)
    with load_fallbacks_loader [OF w, of cfg sys] show ?thesis by (metis snd_conv)
  next
    case False
    with assms env ne clr_path_eq [OF ne] show ?thesis
      by (auto simp: LoadCoreClr_def GetEnvironmentVariableW_def split: if_splits option.splits)
  qed
qed

lemma CallApplicationMain_cases:
  assumes "CallApplicationMain cfg sys rt data = Returns (ret, data', tr)"
  shows "(tr = [] \<and> ret \<and> data' = data)
       \<or> (\<exists>tr0. (\<forall>e \<in> set tr0. loader_event e) \<and> \<not> ret \<and> data' = data \<and>
              tr = tr0 @ [printf_s ''Failed to locate coreclr.dll.'' []])
       \<or> (\<exists>tr0 h cur. (\<forall>e \<in> set tr0. loader_event e) \<and>
              LoadCoreClr cfg sys = Returns (Some h, tr0) \<and>
              start_host sys rt data cur h tr0 = Returns (ret, data', tr))"
proof -
  show ?thesis
  proof (cases "LoadCoreClr cfg sys")
    case (Returns r)
    obtain h tr0 where r: "r = (h, tr0)" by (cases r)
    from LoadCoreClr_loader [of cfg sys h tr0] Returns r
    have l: "\<forall>e \<in> set tr0. loader_event e" by simp
    show ?thesis using assms Returns r l
      by (auto simp: CallApplicationMain_def Finished_def S_OK_def FAILED_def
               split: option.splits prod.splits if_splits sum.splits outcome.splits)
  next
    case Diverges
    with assms show ?thesis
      by (auto simp: CallApplicationMain_def Finished_def S_OK_def FAILED_def
               split: option.splits prod.splits if_splits sum.splits)
  next
    case Undefined
    with assms show ?thesis
      by (auto simp: CallApplicationMain_def Finished_def S_OK_def FAILED_def
               split: option.splits prod.splits if_splits sum.splits)
  qed
qed

lemma start_host_sequential:
  assumes "start_host sys rt data cur h tr0 = Returns (ret, data', tr)"
    and "\<forall>e \<in> set tr0. loader_event e"
  shows "(\<exists>keys values. prefix (host_calls tr)
            [SetStartupFlags, Authenticate, Start, CreateAppDomainWithManager keys values,
             CreateDelegate, UnloadAppDomain, Stop])
       \<and> (FAILED (Authenticate_hr rt) \<longrightarrow>
            Start \<notin> set (host_calls tr) \<and> EvCalloc \<notin> set tr \<and>
            (\<forall>pattern. EvScanDirectory pattern \<notin> set tr) \<and>
            (\<forall>keys values. CreateAppDomainWithManager keys values \<notin> set (host_calls tr)) \<and>
            (Authenticate \<in> set (host_calls tr) \<longrightarrow>
               \<not> ret \<and>
               (\<exists>pre. tr = pre @ [EvHost Authenticate, printf_s ''Failed to Authenticate().'' []])))
       \<and> ((EvCalloc \<in> set tr \<or> (\<exists>pattern. EvScanDirectory pattern \<in> set tr) \<or>
             (\<exists>keys values. CreateAppDomainWithManager keys values \<in> set (host_calls tr))) \<longrightarrow>
            Start \<in> set (host_calls tr) \<and> \<not> FAILED (Start_hr rt))
       \<and> (CreateDelegate \<in> set (host_calls tr) \<longrightarrow>
            (\<exists>keys values. CreateAppDomainWithManager keys values \<in> set (host_calls tr)) \<and>
            \<not> FAILED (CreateAppDomainWithManager_hr rt))"
  using assms
  apply (simp add: start_host_def build_and_run_def run_host_def Finished_def Let_def printf_s_def
           split: option.splits if_splits prod.splits)
  apply (auto)
  done

lemma start_host_calloc_fails:
  assumes "start_host sys rt data cur h tr0 = Returns (ret, data', tr)"
    and "\<forall>e \<in> set tr0. loader_event e" and "\<not> calloc sys" and "EvCalloc \<in> set tr"
  shows "ret \<and> data' = data \<and> \<not> FAILED (Start_hr rt) \<and>
     tr = tr0 @ [EvPin (GetModuleFileName sys (Some h)), EvGetCLRRuntimeHost,
                 EvHost SetStartupFlags, EvHost Authenticate, EvHost Start, EvCalloc]"
  using assms
  by (auto simp: start_host_def build_and_run_def Finished_def Let_def printf_s_def
           split: option.splits if_splits)

lemma build_and_run_calloc_fails:
  assumes "\<not> calloc sys" and "\<not> FAILED hr"
  shows "build_and_run sys rt data hr cur clr tr0 = (True, data, tr0 @ [EvCalloc])"
  using assms by (simp add: build_and_run_def Finished_def)

lemma build_properties_Some:
  assumes "build_properties tpa cch cur clr = Some (tpa', paths)"
  shows "tpa' = tpa @ cur @ ''klr.core45.managed.dll'' \<and> paths = cur @ '';'' @ clr @ '';''"
  using assms
  by (auto simp: build_properties_def wcscat_s_def ERANGE_def split: if_splits)

lemma build_and_run_scans:
  assumes "build_and_run sys rt data hr cur clr tr0 = (ret, data', tr)"
    and "\<forall>p. EvScanDirectory p \<notin> set tr0"
    and "\<forall>keys values. EvHost (CreateAppDomainWithManager keys values) \<notin> set tr0"
    and "EvScanDirectory ''*.ni.dll'' \<in> set tr"
  shows "(EvScanDirectory ''*.dll'' \<in> set tr \<longleftrightarrow>
            \<not> fst (ScanDirectory sys clr ''*.ni.dll'' []
                     TRUSTED_PLATFORM_ASSEMBLIES_STRING_BUFFER_SIZE_CCH))
       \<and> (\<forall>keys values. EvHost (CreateAppDomainWithManager keys values) \<in> set tr \<longrightarrow>
             values = [applicationBase data,
                       scanned_list sys clr @ cur @ ''klr.core45.managed.dll'',
                       cur @ '';'' @ clr @ '';''])"
proof -
  let ?cch = TRUSTED_PLATFORM_ASSEMBLIES_STRING_BUFFER_SIZE_CCH
  obtain ret1 tpa1 where s1: "ScanDirectory sys clr ''*.ni.dll'' [] ?cch = (ret1, tpa1)"
    by (cases "ScanDirectory sys clr ''*.ni.dll'' [] ?cch")
  obtain ret2 tpa2 where s2: "ScanDirectory sys clr ''*.dll'' tpa1 ?cch = (ret2, tpa2)"
    by (cases "ScanDirectory sys clr ''*.dll'' tpa1 ?cch")
  have c: "calloc sys"
    using assms by (auto simp: build_and_run_def Finished_def Let_def split: if_splits)
  show ?thesis
  proof (cases ret1)
    case True
    with assms s1 c show ?thesis
      by (auto simp: build_and_run_def run_host_def Finished_def Let_def printf_s_def
            scanned_list_def split: option.splits if_splits
            dest!: build_properties_Some)
  next
    case False
    with assms s1 s2 c show ?thesis
      by (auto simp: build_and_run_def run_host_def Finished_def Let_def printf_s_def
            scanned_list_def split: option.splits if_splits
            dest!: build_properties_Some)
  qed
qed

lemma start_host_scans:
  assumes "start_host sys rt data cur h tr0 = Returns (ret, data', tr)"
    and "\<forall>e \<in> set tr0. loader_event e"
    and "EvScanDirectory ''*.ni.dll'' \<in> set tr"
  shows "\<exists>clr. GetModuleDirectory (GetModuleFileName sys (Some h)) = Some clr
       \<and> (EvScanDirectory ''*.dll'' \<in> set tr \<longleftrightarrow>
            \<not> fst (ScanDirectory sys clr ''*.ni.dll'' []
                     TRUSTED_PLATFORM_ASSEMBLIES_STRING_BUFFER_SIZE_CCH))
       \<and> (\<forall>keys values. EvHost (CreateAppDomainWithManager keys values) \<in> set tr \<longrightarrow>
             values = [applicationBase data,
                       scanned_list sys clr @ cur @ ''klr.core45.managed.dll'',
                       cur @ '';'' @ clr @ '';''])"
proof -
  from assms obtain clr where
    g: "GetModuleDirectory (GetModuleFileName sys (Some h)) = Some clr" and
    b: "build_and_run sys rt data (Start_hr rt) cur clr
          (tr0 @ [EvPin (GetModuleFileName sys (Some h)), EvGetCLRRuntimeHost,
                  EvHost SetStartupFlags, EvHost Authenticate, EvHost Start]) = (ret, data', tr)"
    by (auto simp: start_host_def Let_def printf_s_def split: option.splits if_splits)
  have n: "\<forall>p. EvScanDirectory p \<notin> set
          (tr0 @ [EvPin (GetModuleFileName sys (Some h)), EvGetCLRRuntimeHost,
                  EvHost SetStartupFlags, EvHost Authenticate, EvHost Start])"
    and m: "\<forall>keys values. EvHost (CreateAppDomainWithManager keys values) \<notin> set
          (tr0 @ [EvPin (GetModuleFileName sys (Some h)), EvGetCLRRuntimeHost,
                  EvHost SetStartupFlags, EvHost Authenticate, EvHost Start])"
    using assms(2) by auto
  from build_and_run_scans [OF b n m assms(3)] g show ?thesis by blast
qed

lemma GetModuleDirectory_clr: "GetModuleDirectory (clr_dir @ ''coreclr.dll'') = Some clr_dir"
  by (simp add: GetModuleDirectory_def clr_dir_def backslash_def eval_nat_numeral)

lemma example_LoadCoreClr:
  "LoadCoreClr example_build example_os =
     Returns (Some 1, [EvLoadLibrary (development_path example_build) 0,
                       EvLoadLibrary ''coreclr.dll'' 0])"
  by (simp add: LoadCoreClr_def GetEnvironmentVariableW_def load_fallbacks_def
        development_path_def example_os_simps)

lemmas run_simps = CallApplicationMain_def start_host_def build_and_run_def run_host_def
  build_properties_def Finished_def wcscpy_s_def wcscat_s_def MAX_PATH_def
  TRUSTED_PLATFORM_ASSEMBLIES_STRING_BUFFER_SIZE_CCH_def FAILED_def S_OK_def
  GetModuleDirectory_def ScanDirectory_def is_directory_def excluded_def
  FILE_ATTRIBUTE_DIRECTORY_def property_keys_def clr_dir_def app_dir_def backslash_def
  example_os_def example_host_def example_call_data_def printf_s_def

lemma LoadCoreClr_calloc_fails:
  "LoadCoreClr example_build calloc_fails_os = LoadCoreClr example_build example_os"
  by (simp add: LoadCoreClr_def GetEnvironmentVariableW_def load_fallbacks_def
        calloc_fails_os_def example_os_def)

lemma LoadCoreClr_no_files:
  "LoadCoreClr example_build no_files_os = LoadCoreClr example_build example_os"
  by (simp add: LoadCoreClr_def GetEnvironmentVariableW_def load_fallbacks_def
        no_files_os_def example_os_def)

lemma LoadCoreClr_only_excluded:
  "LoadCoreClr example_build only_excluded_os = LoadCoreClr example_build example_os"
  by (simp add: LoadCoreClr_def GetEnvironmentVariableW_def load_fallbacks_def
        only_excluded_os_def example_os_def)

lemma calloc_fails_run:
  "CallApplicationMain example_build calloc_fails_os example_host example_call_data =
     Returns (True, example_call_data, example_prefix)"
  by (simp add: CallApplicationMain_def LoadCoreClr_calloc_fails example_LoadCoreClr
        example_call_data_def wcscpy_s_def MAX_PATH_def app_dir_def)
     (simp add: run_simps calloc_fails_os_def example_prefix_def)

lemma no_files_run:
  "CallApplicationMain example_build no_files_os example_host example_call_data =
     Returns (False, example_call_data,
       example_prefix @ [EvScanDirectory ''*.ni.dll'', EvScanDirectory ''*.dll'',
         printf_s ''Failed to find files in the coreclr directory'' []])"
  by (simp add: CallApplicationMain_def LoadCoreClr_no_files example_LoadCoreClr
        example_call_data_def wcscpy_s_def MAX_PATH_def app_dir_def)
     (simp add: run_simps no_files_os_def example_prefix_def)

lemma example_run:
  "CallApplicationMain example_build example_os example_host example_call_data =
     Returns (True, example_call_data\<lparr>exitcode := 42\<rparr>,
       example_prefix @ [EvScanDirectory ''*.ni.dll'', EvScanDirectory ''*.dll'',
         EvHost (CreateAppDomainWithManager property_keys
           [app_dir,
            clr_dir @ ''mscorlib.dll;'' @ clr_dir @ ''System.dll;'' @ app_dir @
              ''klr.core45.managed.dll'',
            app_dir @ '';'' @ clr_dir @ '';'']),
         EvHost CreateDelegate, EvSetEnvironmentVariable ''KRE_FRAMEWORK'' ''aspnetcore50'',
         EvHostMain 1 [''app''], EvHost UnloadAppDomain, EvHost Stop, EvFree])"
  by (simp add: CallApplicationMain_def example_LoadCoreClr
        example_call_data_def wcscpy_s_def MAX_PATH_def app_dir_def)
     (simp add: run_simps example_prefix_def example_files_def)

lemma auth_fails_run:
  "CallApplicationMain example_build example_os auth_fails_host example_call_data =
     Returns (False, example_call_data,
       [EvLoadLibrary (development_path example_build) 0, EvLoadLibrary ''coreclr.dll'' 0,
        EvPin (clr_dir @ ''coreclr.dll''), EvGetCLRRuntimeHost,
        EvHost SetStartupFlags, EvHost Authenticate, printf_s ''Failed to Authenticate().'' []])"
  by (simp add: CallApplicationMain_def example_LoadCoreClr
        example_call_data_def wcscpy_s_def MAX_PATH_def app_dir_def)
     (simp add: run_simps auth_fails_host_def)

lemma only_excluded_run:
  "CallApplicationMain example_build only_excluded_os example_host example_call_data =
     Returns (True, example_call_data\<lparr>exitcode := 42\<rparr>,
       example_prefix @ [EvScanDirectory ''*.ni.dll'',
         EvHost (CreateAppDomainWithManager property_keys
           [app_dir, app_dir @ ''klr.core45.managed.dll'', app_dir @ '';'' @ clr_dir @ '';'']),
         EvHost CreateDelegate, EvSetEnvironmentVariable ''KRE_FRAMEWORK'' ''aspnetcore50'',
         EvHostMain 1 [''app''], EvHost UnloadAppDomain, EvHost Stop, EvFree])"
  by (simp add: CallApplicationMain_def LoadCoreClr_only_excluded example_LoadCoreClr
        example_call_data_def wcscpy_s_def MAX_PATH_def app_dir_def)
     (simp add: run_simps only_excluded_os_def example_prefix_def example_files_def)

text \<open>
  Claim C4. The host calls of a run are an initial part of the sequence
  \<open>SetStartupFlags\<close>, \<open>Authenticate\<close>, \<open>Start\<close>, \<open>CreateAppDomainWithManager\<close>,
  \<open>CreateDelegate\<close>, \<open>UnloadAppDomain\<close>, \<open>Stop\<close>. When the authentication fails the run
  ends with the call of \<open>Authenticate\<close> and its message and returns \<open>false\<close>; \<open>Start\<close>, the
  allocation, the scans and the creation of the application domain are not reached.
  The allocation, the scans and the creation of the domain are reached only after
  \<open>Start\<close> has succeeded, and \<open>CreateDelegate\<close> only after the creation of the domain has
  succeeded.
\<close>

theorem CallApplicationMain_sequential:
  assumes "CallApplicationMain cfg sys rt data = Returns (ret, data', tr)"
  shows "(\<exists>keys values. prefix (host_calls tr)
            [SetStartupFlags, Authenticate, Start, CreateAppDomainWithManager keys values,
             CreateDelegate, UnloadAppDomain, Stop])
       \<and> (FAILED (Authenticate_hr rt) \<longrightarrow>
            Start \<notin> set (host_calls tr) \<and> EvCalloc \<notin> set tr \<and>
            (\<forall>pattern. EvScanDirectory pattern \<notin> set tr) \<and>
            (\<forall>keys values. CreateAppDomainWithManager keys values \<notin> set (host_calls tr)) \<and>
            (Authenticate \<in> set (host_calls tr) \<longrightarrow>
               \<not> ret \<and>
               (\<exists>pre. tr = pre @ [EvHost Authenticate, printf_s ''Failed to Authenticate().'' []])))
       \<and> ((EvCalloc \<in> set tr \<or> (\<exists>pattern. EvScanDirectory pattern \<in> set tr) \<or>
             (\<exists>keys values. CreateAppDomainWithManager keys values \<in> set (host_calls tr))) \<longrightarrow>
            Start \<in> set (host_calls tr) \<and> \<not> FAILED (Start_hr rt))
       \<and> (CreateDelegate \<in> set (host_calls tr) \<longrightarrow>
            (\<exists>keys values. CreateAppDomainWithManager keys values \<in> set (host_calls tr)) \<and>
            \<not> FAILED (CreateAppDomainWithManager_hr rt))"
proof -
  from CallApplicationMain_cases [OF assms]
  consider (overflow) "tr = []"
    | (not_located) tr0 where "\<forall>e \<in> set tr0. loader_event e"
        "tr = tr0 @ [printf_s ''Failed to locate coreclr.dll.'' []]"
    | (located) tr0 h cur where "\<forall>e \<in> set tr0. loader_event e"
        "start_host sys rt data cur h tr0 = Returns (ret, data', tr)"
    by blast
  then show ?thesis
  proof cases
    case overflow
    then show ?thesis by simp
  next
    case not_located
    then show ?thesis by (simp add: printf_s_def)
  next
    case located
    from start_host_sequential [OF located(2,1)] show ?thesis .
  qed
qed

theorem CallApplicationMain_sequential_witness:
  "FAILED (Authenticate_hr auth_fails_host)
   \<and> (\<exists>tr. CallApplicationMain example_build example_os auth_fails_host example_call_data =
          Returns (False, example_call_data, tr)
        \<and> host_calls tr = [SetStartupFlags, Authenticate]
        \<and> EvCalloc \<notin> set tr)
   \<and> (\<exists>tr keys values.
          CallApplicationMain example_build example_os example_host example_call_data =
          Returns (True, example_call_data\<lparr>exitcode := 42\<rparr>, tr)
        \<and> host_calls tr = [SetStartupFlags, Authenticate, Start,
             CreateAppDomainWithManager keys values, CreateDelegate, UnloadAppDomain, Stop])
   \<and> \<not> FAILED (Start_hr example_host)
   \<and> \<not> FAILED (CreateAppDomainWithManager_hr example_host)"
proof -
  have f: "FAILED (Authenticate_hr auth_fails_host)"
    by (simp add: auth_fails_host_def FAILED_def)
  from CallApplicationMain_sequential [OF auth_fails_run] f
  have "EvCalloc \<notin> set
       [EvLoadLibrary (development_path example_build) 0, EvLoadLibrary ''coreclr.dll'' 0,
        EvPin (clr_dir @ ''coreclr.dll''), EvGetCLRRuntimeHost,
        EvHost SetStartupFlags, EvHost Authenticate, printf_s ''Failed to Authenticate().'' []]"
    by blast
  with f auth_fails_run
  have 1: "\<exists>tr. CallApplicationMain example_build example_os auth_fails_host example_call_data =
          Returns (False, example_call_data, tr)
        \<and> host_calls tr = [SetStartupFlags, Authenticate]
        \<and> EvCalloc \<notin> set tr"
    by (simp add: printf_s_def)
  from example_run
  have 2: "\<exists>tr keys values.
          CallApplicationMain example_build example_os example_host example_call_data =
          Returns (True, example_call_data\<lparr>exitcode := 42\<rparr>, tr)
        \<and> host_calls tr = [SetStartupFlags, Authenticate, Start,
             CreateAppDomainWithManager keys values, CreateDelegate, UnloadAppDomain, Stop]"
    by (simp add: example_prefix_def)
  from CallApplicationMain_sequential [OF example_run]
  have 3: "\<not> FAILED (Start_hr example_host)
           \<and> \<not> FAILED (CreateAppDomainWithManager_hr example_host)"
    by (simp add: example_prefix_def)
  from f 1 2 3 show ?thesis by blast
qed

text \<open>
  Claim C5 fails on the code. When both scans fail, line 358 returns \<open>false\<close> without
  passing \<open>Finished\<close>: the buffer has been allocated and is not released. Lines 421 and
  436 return in the same way.
\<close>

theorem CallApplicationMain_scan_failure_leaks_buffer:
  "\<exists>tr. CallApplicationMain example_build no_files_os example_host example_call_data =
          Returns (False, example_call_data, tr)
        \<and> EvCalloc \<in> set tr \<and> EvFree \<notin> set tr"
  using no_files_run by (simp add: example_prefix_def printf_s_def)

text \<open>
  Claim C6, as amended. In a run that reaches the optimized scan, the scan with
  \<open>*.dll\<close> is made exactly when the scan with \<open>*.ni.dll\<close> returns \<open>false\<close>, and the list
  handed to the host is the one the scans have left, followed by the entry assembly.
  For a runtime directory whose pattern fits, the optimized scan returns \<open>true\<close>
  exactly when its enumeration is not empty and either lists nothing (all matches
  are directories or excluded files) or the listed entries fit into the buffer.
\<close>

theorem CallApplicationMain_fallback_scan:
  assumes "CallApplicationMain cfg sys rt data = Returns (ret, data', tr)"
    and "EvScanDirectory ''*.ni.dll'' \<in> set tr"
  shows "\<exists>h tr0 clr.
           LoadCoreClr cfg sys = Returns (Some h, tr0)
         \<and> GetModuleDirectory (GetModuleFileName sys (Some h)) = Some clr
         \<and> (EvScanDirectory ''*.dll'' \<in> set tr \<longleftrightarrow>
              \<not> fst (ScanDirectory sys clr ''*.ni.dll'' []
                       TRUSTED_PLATFORM_ASSEMBLIES_STRING_BUFFER_SIZE_CCH))
         \<and> (\<forall>keys values. EvHost (CreateAppDomainWithManager keys values) \<in> set tr \<longrightarrow>
               (\<exists>cur. values = [applicationBase data,
                          scanned_list sys clr @ cur @ ''klr.core45.managed.dll'',
                          cur @ '';'' @ clr @ '';'']))
         \<and> (length clr + 9 \<le> MAX_PATH \<longrightarrow>
               fst (ScanDirectory sys clr ''*.ni.dll'' []
                      TRUSTED_PLATFORM_ASSEMBLIES_STRING_BUFFER_SIZE_CCH) =
               (FindFile sys (clr @ ''*.ni.dll'') \<noteq> [] \<and>
                (listed (FindFile sys (clr @ ''*.ni.dll'')) = [] \<or>
                 length (concat (map (entry clr) (listed (FindFile sys (clr @ ''*.ni.dll''))))) + 1
                   \<le> TRUSTED_PLATFORM_ASSEMBLIES_STRING_BUFFER_SIZE_CCH)))"
proof -
  from CallApplicationMain_cases [OF assms(1)] assms(2)
  obtain tr0 h cur where l: "\<forall>e \<in> set tr0. loader_event e"
    and c: "LoadCoreClr cfg sys = Returns (Some h, tr0)"
    and s: "start_host sys rt data cur h tr0 = Returns (ret, data', tr)"
    by (auto simp: printf_s_def)
  from start_host_scans [OF s l assms(2)] obtain clr where
    g: "GetModuleDirectory (GetModuleFileName sys (Some h)) = Some clr" and
    f: "EvScanDirectory ''*.dll'' \<in> set tr \<longleftrightarrow>
            \<not> fst (ScanDirectory sys clr ''*.ni.dll'' []
                     TRUSTED_PLATFORM_ASSEMBLIES_STRING_BUFFER_SIZE_CCH)" and
    v: "\<forall>keys values. EvHost (CreateAppDomainWithManager keys values) \<in> set tr \<longrightarrow>
             values = [applicationBase data,
                       scanned_list sys clr @ cur @ ''klr.core45.managed.dll'',
                       cur @ '';'' @ clr @ '';'']"
    by blast
  have k: "length clr + 9 \<le> MAX_PATH \<longrightarrow>
               fst (ScanDirectory sys clr ''*.ni.dll'' []
                      TRUSTED_PLATFORM_ASSEMBLIES_STRING_BUFFER_SIZE_CCH) =
               (FindFile sys (clr @ ''*.ni.dll'') \<noteq> [] \<and>
                (listed (FindFile sys (clr @ ''*.ni.dll'')) = [] \<or>
                 length (concat (map (entry clr) (listed (FindFile sys (clr @ ''*.ni.dll''))))) + 1
                   \<le> TRUSTED_PLATFORM_ASSEMBLIES_STRING_BUFFER_SIZE_CCH))"
  proof
    assume "length clr + 9 \<le> MAX_PATH"
    then have "length clr + length ''*.ni.dll'' + 1 \<le> MAX_PATH" by simp
    from ScanDirectory_char [OF this, of sys "[]" TRUSTED_PLATFORM_ASSEMBLIES_STRING_BUFFER_SIZE_CCH]
    show "fst (ScanDirectory sys clr ''*.ni.dll'' []
                      TRUSTED_PLATFORM_ASSEMBLIES_STRING_BUFFER_SIZE_CCH) =
               (FindFile sys (clr @ ''*.ni.dll'') \<noteq> [] \<and>
                (listed (FindFile sys (clr @ ''*.ni.dll'')) = [] \<or>
                 length (concat (map (entry clr) (listed (FindFile sys (clr @ ''*.ni.dll''))))) + 1
                   \<le> TRUSTED_PLATFORM_ASSEMBLIES_STRING_BUFFER_SIZE_CCH))"
      by (simp split: if_splits)
  qed
  from c g f v k show ?thesis by blast
qed

theorem CallApplicationMain_fallback_scan_witness:
  "(\<exists>tr. CallApplicationMain example_build example_os example_host example_call_data =
          Returns (True, example_call_data\<lparr>exitcode := 42\<rparr>, tr)
        \<and> EvScanDirectory ''*.ni.dll'' \<in> set tr \<and> EvScanDirectory ''*.dll'' \<in> set tr)
   \<and> \<not> fst (ScanDirectory example_os clr_dir ''*.ni.dll'' []
               TRUSTED_PLATFORM_ASSEMBLIES_STRING_BUFFER_SIZE_CCH)"
proof -
  have m: "EvScanDirectory ''*.ni.dll'' \<in> set
       (example_prefix @ [EvScanDirectory ''*.ni.dll'', EvScanDirectory ''*.dll'',
         EvHost (CreateAppDomainWithManager property_keys
           [app_dir,
            clr_dir @ ''mscorlib.dll;'' @ clr_dir @ ''System.dll;'' @ app_dir @
              ''klr.core45.managed.dll'',
            app_dir @ '';'' @ clr_dir @ '';'']),
         EvHost CreateDelegate, EvSetEnvironmentVariable ''KRE_FRAMEWORK'' ''aspnetcore50'',
         EvHostMain 1 [''app''], EvHost UnloadAppDomain, EvHost Stop, EvFree])"
    by simp
  have g: "GetModuleDirectory (GetModuleFileName example_os (Some 1)) = Some clr_dir"
    by (simp add: example_os_def GetModuleDirectory_clr)
  from CallApplicationMain_fallback_scan [OF example_run m]
  obtain h tr0 clr where
    "LoadCoreClr example_build example_os = Returns (Some h, tr0)" and
    "GetModuleDirectory (GetModuleFileName example_os (Some h)) = Some clr" and
    "\<not> fst (ScanDirectory example_os clr ''*.ni.dll'' []
               TRUSTED_PLATFORM_ASSEMBLIES_STRING_BUFFER_SIZE_CCH)"
    by auto
  with g have "\<not> fst (ScanDirectory example_os clr_dir ''*.ni.dll'' []
               TRUSTED_PLATFORM_ASSEMBLIES_STRING_BUFFER_SIZE_CCH)"
    by (simp add: example_LoadCoreClr)
  with example_run show ?thesis by simp
qed

text \<open>
  Claim C6 as stated fails: the only match of \<open>*.ni.dll\<close> is an excluded file, so the
  optimized scan lists nothing; it returns \<open>true\<close> all the same, the scan with \<open>*.dll\<close>
  is not made although it would list two files, and the list handed to the host
  holds the entry assembly only.
\<close>

theorem CallApplicationMain_only_excluded_counterexample:
  "FindFile only_excluded_os (clr_dir @ ''*.ni.dll'') \<noteq> []
   \<and> listed (FindFile only_excluded_os (clr_dir @ ''*.ni.dll'')) = []
   \<and> listed (FindFile only_excluded_os (clr_dir @ ''*.dll'')) \<noteq> []
   \<and> (\<exists>tr. CallApplicationMain example_build only_excluded_os example_host example_call_data =
          Returns (True, example_call_data\<lparr>exitcode := 42\<rparr>, tr)
        \<and> EvScanDirectory ''*.ni.dll'' \<in> set tr \<and> EvScanDirectory ''*.dll'' \<notin> set tr
        \<and> EvHost (CreateAppDomainWithManager property_keys
             [app_dir, app_dir @ ''klr.core45.managed.dll'', app_dir @ '';'' @ clr_dir @ '';''])
           \<in> set tr)"
proof -
  have "FindFile only_excluded_os (clr_dir @ ''*.ni.dll'') \<noteq> []
   \<and> listed (FindFile only_excluded_os (clr_dir @ ''*.ni.dll'')) = []
   \<and> listed (FindFile only_excluded_os (clr_dir @ ''*.dll'')) \<noteq> []"
    by (simp add: only_excluded_os_def example_os_def listed_def excluded_def is_directory_def
          FILE_ATTRIBUTE_DIRECTORY_def example_files_def clr_dir_def)
  with only_excluded_run show ?thesis by (simp add: example_prefix_def)
qed

text \<open>
  Claim C7, as amended. For a pattern that fits: when the enumeration cannot start
  \<open>ScanDirectory\<close> returns \<open>false\<close> with the buffer as it was; when the listed entries do
  not fit into the buffer it returns \<open>false\<close> with the buffer empty, so that no
  truncated list is left; otherwise it returns \<open>true\<close> with all entries appended. Both
  failures are the same value \<open>false\<close>, and after either one the caller scans with the
  generic pattern.
\<close>

theorem ScanDirectory_failure_modes:
  assumes "length szDirectory + length szPattern + 1 \<le> MAX_PATH"
  shows "ScanDirectory sys szDirectory szPattern tpa cch =
           (if FindFile sys (szDirectory @ szPattern) = [] then (False, tpa)
            else if listed (FindFile sys (szDirectory @ szPattern)) = [] \<or>
                    length tpa +
                    length (concat (map (\<lambda>ffd. szDirectory @ cFileName ffd @ '';'')
                              (listed (FindFile sys (szDirectory @ szPattern))))) + 1 \<le> cch
                 then (True, tpa @ concat (map (\<lambda>ffd. szDirectory @ cFileName ffd @ '';'')
                                     (listed (FindFile sys (szDirectory @ szPattern)))))
                 else (False, []))
       \<and> (\<forall>rt data hr cur tr0.
             calloc sys \<and>
             \<not> fst (ScanDirectory sys szDirectory ''*.ni.dll'' []
                      TRUSTED_PLATFORM_ASSEMBLIES_STRING_BUFFER_SIZE_CCH) \<longrightarrow>
             EvScanDirectory ''*.dll'' \<in>
               set (snd (snd (build_and_run sys rt data hr cur szDirectory tr0))))"
proof -
  have e: "entry szDirectory = (\<lambda>ffd. szDirectory @ cFileName ffd @ '';'')"
    by (rule ext) (simp add: entry_def)
  have "\<forall>rt data hr cur tr0.
             calloc sys \<and>
             \<not> fst (ScanDirectory sys szDirectory ''*.ni.dll'' []
                      TRUSTED_PLATFORM_ASSEMBLIES_STRING_BUFFER_SIZE_CCH) \<longrightarrow>
             EvScanDirectory ''*.dll'' \<in>
               set (snd (snd (build_and_run sys rt data hr cur szDirectory tr0)))"
    by (auto simp: build_and_run_def run_host_def Finished_def Let_def
             split: prod.splits option.splits)
  with ScanDirectory_char [OF assms, of sys tpa cch] show ?thesis by (simp add: e)
qed

theorem ScanDirectory_failure_modes_witness:
  "length clr_dir + length ''*.dll'' + 1 \<le> MAX_PATH
   \<and> FindFile example_os (clr_dir @ ''*.dll'') \<noteq> []
   \<and> ScanDirectory example_os clr_dir ''*.dll'' [] 8 = (False, [])
   \<and> calloc no_files_os
   \<and> \<not> fst (ScanDirectory no_files_os clr_dir ''*.ni.dll'' []
               TRUSTED_PLATFORM_ASSEMBLIES_STRING_BUFFER_SIZE_CCH)
   \<and> EvScanDirectory ''*.dll'' \<in>
        set (snd (snd (build_and_run no_files_os example_host example_call_data 0 app_dir
                         clr_dir [])))"
proof -
  have a: "length clr_dir + length ''*.dll'' + 1 \<le> MAX_PATH"
    by (simp add: clr_dir_def MAX_PATH_def)
  have b: "length clr_dir + length ''*.ni.dll'' + 1 \<le> MAX_PATH"
    by (simp add: clr_dir_def MAX_PATH_def)
  have c: "calloc no_files_os" by (simp add: no_files_os_def example_os_def)
  have d: "\<not> fst (ScanDirectory no_files_os clr_dir ''*.ni.dll'' []
               TRUSTED_PLATFORM_ASSEMBLIES_STRING_BUFFER_SIZE_CCH)"
    by (simp add: ScanDirectory_def no_files_os_def example_os_def wcscpy_s_def wcscat_s_def
          MAX_PATH_def clr_dir_def)
  have f: "FindFile example_os (clr_dir @ ''*.dll'') \<noteq> []"
    by (simp add: example_os_def example_files_def)
  from ScanDirectory_failure_modes [OF a, of example_os "[]" 8] f
  have "ScanDirectory example_os clr_dir ''*.dll'' [] 8 = (False, [])"
    by (simp add: example_os_def example_files_def listed_def excluded_def is_directory_def
          FILE_ATTRIBUTE_DIRECTORY_def clr_dir_def)
  moreover from ScanDirectory_failure_modes [OF b, of no_files_os "[]" 0] c d
  have "EvScanDirectory ''*.dll'' \<in>
        set (snd (snd (build_and_run no_files_os example_host example_call_data 0 app_dir
                         clr_dir [])))"
    by blast
  ultimately show ?thesis using a c d f by simp
qed

text \<open>
  Claim C7 as stated fails: an overflow of the buffer and an enumeration that cannot
  start give the same result, \<open>false\<close> with an empty buffer.
\<close>

theorem ScanDirectory_overflow_counterexample:
  "FindFile example_os (clr_dir @ ''*.dll'') \<noteq> []
   \<and> FindFile no_files_os (clr_dir @ ''*.dll'') = []
   \<and> ScanDirectory example_os clr_dir ''*.dll'' [] 8 = (False, [])
   \<and> ScanDirectory no_files_os clr_dir ''*.dll'' [] 8 = (False, [])"
  by (simp add: ScanDirectory_def no_files_os_def example_os_def wcscpy_s_def wcscat_s_def
        MAX_PATH_def clr_dir_def example_files_def excluded_def is_directory_def
        FILE_ATTRIBUTE_DIRECTORY_def ERANGE_def)




text \<open>
  Claim C10. When the allocation of the assembly list fails, \<open>CallApplicationMain\<close>
  jumps to \<open>Finished\<close> with the result of \<open>Start\<close>, which has succeeded, still in \<open>hr\<close>: the
  part of the function from line 344 on, entered with such an \<open>hr\<close>, returns \<open>true\<close>
  right after the allocation and leaves \<open>data\<close> as it was. So a run of
  \<open>CallApplicationMain\<close> that reaches the allocation returns \<open>true\<close>, \<open>exitcode\<close> is not
  written, the trace ends with the allocation, and no scan, no creation of the
  application domain and no call of the entry delegate has been made.
\<close>

theorem CallApplicationMain_calloc_fails_returns_true:
  assumes "\<not> calloc sys"
  shows "(\<not> FAILED hr \<longrightarrow>
            build_and_run sys rt data hr cur clr tr0 = (True, data, tr0 @ [EvCalloc]))
       \<and> (\<forall>ret data' tr.
            CallApplicationMain cfg sys rt data = Returns (ret, data', tr) \<and> EvCalloc \<in> set tr \<longrightarrow>
            ret = True \<and> data' = data
            \<and> host_calls tr = [SetStartupFlags, Authenticate, Start] \<and> \<not> FAILED (Start_hr rt)
            \<and> last tr = EvCalloc
            \<and> (\<forall>pattern. EvScanDirectory pattern \<notin> set tr)
            \<and> (\<forall>keys values. EvHost (CreateAppDomainWithManager keys values) \<notin> set tr)
            \<and> (\<forall>n args. EvHostMain n args \<notin> set tr))"
proof (rule conjI)
  show "\<not> FAILED hr \<longrightarrow>
            build_and_run sys rt data hr cur clr tr0 = (True, data, tr0 @ [EvCalloc])"
    using assms by (simp add: build_and_run_calloc_fails)
next
  have "ret = True \<and> data' = data
            \<and> host_calls tr = [SetStartupFlags, Authenticate, Start] \<and> \<not> FAILED (Start_hr rt)
            \<and> last tr = EvCalloc
            \<and> (\<forall>pattern. EvScanDirectory pattern \<notin> set tr)
            \<and> (\<forall>keys values. EvHost (CreateAppDomainWithManager keys values) \<notin> set tr)
            \<and> (\<forall>n args. EvHostMain n args \<notin> set tr)"
    if r: "CallApplicationMain cfg sys rt data = Returns (ret, data', tr) \<and> EvCalloc \<in> set tr"
    for ret data' tr
  proof -
    from r CallApplicationMain_cases [of cfg sys rt data ret data' tr]
    obtain tr0 h cur where l: "\<forall>e \<in> set tr0. loader_event e"
      and s: "start_host sys rt data cur h tr0 = Returns (ret, data', tr)"
      by (auto simp: printf_s_def)
    from r have e: "EvCalloc \<in> set tr" by simp
    from start_host_calloc_fails [OF s l assms e] l
    show ?thesis by auto
  qed
  then show "\<forall>ret data' tr.
            CallApplicationMain cfg sys rt data = Returns (ret, data', tr) \<and> EvCalloc \<in> set tr \<longrightarrow>
            ret = True \<and> data' = data
            \<and> host_calls tr = [SetStartupFlags, Authenticate, Start] \<and> \<not> FAILED (Start_hr rt)
            \<and> last tr = EvCalloc
            \<and> (\<forall>pattern. EvScanDirectory pattern \<notin> set tr)
            \<and> (\<forall>keys values. EvHost (CreateAppDomainWithManager keys values) \<notin> set tr)
            \<and> (\<forall>n args. EvHostMain n args \<notin> set tr)"
    by blast
qed

theorem CallApplicationMain_calloc_fails_returns_true_witness:
  "\<not> calloc calloc_fails_os \<and> \<not> FAILED (Start_hr example_host)
   \<and> build_and_run calloc_fails_os example_host example_call_data (Start_hr example_host)
        app_dir clr_dir [] = (True, example_call_data, [EvCalloc])
   \<and> CallApplicationMain example_build calloc_fails_os example_host example_call_data =
        Returns (True, example_call_data, example_prefix)
   \<and> EvCalloc \<in> set example_prefix
   \<and> host_calls example_prefix = [SetStartupFlags, Authenticate, Start]
   \<and> last example_prefix = EvCalloc"
proof -
  have c: "\<not> calloc calloc_fails_os" by (simp add: calloc_fails_os_def)
  have e: "EvCalloc \<in> set example_prefix" by (simp add: example_prefix_def)
  have f: "\<not> FAILED (Start_hr example_host)" by (simp add: example_host_def FAILED_def)
  note t = CallApplicationMain_calloc_fails_returns_true
             [OF c, of "Start_hr example_host" example_host example_call_data app_dir clr_dir "[]"
                example_build]
  from t f have 1: "build_and_run calloc_fails_os example_host example_call_data
        (Start_hr example_host) app_dir clr_dir [] = (True, example_call_data, [EvCalloc])"
    by simp
  from t calloc_fails_run e
  have 2: "host_calls example_prefix = [SetStartupFlags, Authenticate, Start]
           \<and> last example_prefix = EvCalloc"
    by blast
  from 1 2 c e f calloc_fails_run show ?thesis by simp
qed

end
